theory Spec2Isabelle
  imports Main
begin

section \<open>Values, queries and expressions\<close>

text \<open>
  The store (\<^verbatim>\<open>packages/store/src/store.ts\<close>) handles plain JavaScript values. A value is
  one of the JSON shapes, \<^verbatim>\<open>undefined\<close>, or an object that is not a plain object (a
  \<^verbatim>\<open>Date\<close>, a class instance), which the store never looks into and which is kept as an
  opaque tag. A plain object is the sequence of its own enumerable string-keyed properties
  in the order in which \<^verbatim>\<open>Object.entries\<close> enumerates them. Numbers are only carried
  around by the store, never computed with, and are represented by integers.
\<close>

datatype jsvalue =
    Undefined
  | Null
  | Bool bool
  | Num int
  | Str string
  | Arr "jsvalue list"
  | Obj "(string \<times> jsvalue) list"
  | Opaque string

type_synonym plainObject = "(string \<times> jsvalue) list"
type_synonym query = plainObject
type_synonym path = string

text \<open>
  \<^verbatim>\<open>Expression = [Path, Operator, any]\<close>: the third component is a plain value, a list of
  expressions (\<^verbatim>\<open>$some\<close>, \<^verbatim>\<open>$every\<close>, \<^verbatim>\<open>$not\<close>) or a list of expression lists
  (\<^verbatim>\<open>$and\<close>, \<^verbatim>\<open>$or\<close>, \<^verbatim>\<open>$nor\<close>).
\<close>

datatype operand =
    Plain jsvalue
  | Exprs "(path \<times> string \<times> operand) list"
  | ExprLists "(path \<times> string \<times> operand) list list"

type_synonym expression = "path \<times> string \<times> operand"

text \<open>
  Every \<^verbatim>\<open>throw\<close> of the store is a constructor. The payload is what the source puts into
  the message.
  \<^item> \<open>UnsupportedRootOperator operator query\<close>: "A query cannot contain the operator
    '...' at its root (query: ...)".
  \<^item> \<open>InvalidQueryShape object\<close>: "A subquery cannot contain both an attribute and an
    operator (subquery: ...)".
  \<^item> \<open>UnexpectedObjectValue query\<close>: "Unexpected object encountered in a query (query: ...)".
  \<^item> \<open>UnknownOperator operator query\<close>: raised by the operator registry.
  \<^item> \<open>TypeError\<close>: the runtime's error for \<^verbatim>\<open>values.map\<close> on a value that is no array.
  \<^item> \<open>OptionsConflict\<close>: "The 'throwIfMissing' and 'throwIfExists' options cannot be both
    set to true".
  \<^item> \<open>StorableNotRegistered type\<close>: "The storable component of type '...' is not
    registered in the store".
  \<^item> \<open>MissingFromStore operation type identifier\<close>: "Cannot load / save / delete a
    component that is missing from the store (...)", code
    \<^verbatim>\<open>COMPONENT_IS_MISSING_FROM_STORE\<close>.
  \<^item> \<open>AlreadyExistsInStore type identifier\<close>: "Cannot save a new component that already
    exists in the store (...)", code \<^verbatim>\<open>COMPONENT_ALREADY_EXISTS_IN_STORE\<close>.
  \<^item> \<open>External message\<close>: an error thrown by a collaborator or by a backend, which the
    store passes on.
\<close>

datatype error =
    UnsupportedRootOperator string query
  | InvalidQueryShape plainObject
  | UnexpectedObjectValue query
  | UnknownOperator string query
  | TypeError
  | OptionsConflict
  | StorableNotRegistered jsvalue
  | MissingFromStore string jsvalue jsvalue
  | AlreadyExistsInStore jsvalue jsvalue
  | External string

fun code :: "error \<Rightarrow> string option" where
  "code (MissingFromStore operation storableType identifierDescriptor) =
     Some ''COMPONENT_IS_MISSING_FROM_STORE''"
| "code (AlreadyExistsInStore storableType identifierDescriptor) =
     Some ''COMPONENT_ALREADY_EXISTS_IN_STORE''"
| "code e = None"

section \<open>Helpers of the query compiler\<close>

text \<open>
  Modelled from the spec: \<^verbatim>\<open>looksLikeOperator\<close> is imported from \<^verbatim>\<open>./operator\<close>, which is
  not among the sources. The spec: operator tokens are distinguished by a fixed lexical
  marker, the reserved leading character \<^verbatim>\<open>$\<close>; the test is purely syntactic.
\<close>

definition looksLikeOperator :: "string \<Rightarrow> bool" where
  "looksLikeOperator name = (case name of [] \<Rightarrow> False | c # _ \<Rightarrow> c = CHR ''$'')"

text \<open>
  \<^verbatim>\<open>normalizeOperatorForValue(operator, value, {query})\<close> comes from \<^verbatim>\<open>./operator\<close> too. The
  compiler takes it as a parameter \<open>norm\<close>, so that what is proved about the compiler holds
  for every operator registry.
\<close>

type_synonym normalizer = "string \<Rightarrow> jsvalue \<Rightarrow> query \<Rightarrow> error + string"

text \<open>
  Modelled from the spec: \<^verbatim>\<open>normalizeOperatorForValue\<close>, for the concrete queries below.
  The spec: a token that is already a canonical operator is returned as it is; otherwise an
  alias is resolved; an unrecognized token fails with \<open>UnknownOperator\<close>, naming the token and
  the query. The spec lists the canonical operators and no alias, so the alias table is an
  argument.
\<close>

definition canonicalOperators :: "string list" where
  "canonicalOperators =
     [''$equal'', ''$notEqual'', ''$greaterThan'', ''$greaterThanOrEqual'', ''$lessThan'',
      ''$lessThanOrEqual'', ''$in'', ''$notIn'', ''$and'', ''$or'', ''$nor'',
      ''$some'', ''$every'', ''$not'']"

definition normalizeOperatorForValue :: "(string \<times> string) list \<Rightarrow> normalizer" where
  "normalizeOperatorForValue aliases operator value query =
     (if operator \<in> set canonicalOperators then Inr operator
      else case map_of aliases operator of
             Some canonical \<Rightarrow> Inr canonical
           | None \<Rightarrow> Inl (UnknownOperator operator query))"

text \<open>
  \<^verbatim>\<open>isPlainObject\<close> (package core-helpers): true of objects made by an object literal, false
  of arrays, \<^verbatim>\<open>null\<close>, dates and class instances.
\<close>

fun isPlainObject :: "jsvalue \<Rightarrow> bool" where
  "isPlainObject (Obj object) = True"
| "isPlainObject value = False"

definition Object_keys :: "plainObject \<Rightarrow> string list" where
  "Object_keys object = map fst object"

definition Object_entries :: "plainObject \<Rightarrow> (string \<times> jsvalue) list" where
  "Object_entries object = object"

text \<open>
  The loop of \<^verbatim>\<open>handleValue\<close> over \<^verbatim>\<open>Object.keys(object)\<close>, which sets the two flags
  \<^verbatim>\<open>objectContainsAttributes\<close> and \<^verbatim>\<open>objectContainsOperators\<close>.
\<close>

fun scanKeys :: "string list \<Rightarrow> bool \<times> bool \<Rightarrow> bool \<times> bool" where
  "scanKeys [] flags = flags"
| "scanKeys (name # names) (objectContainsAttributes, objectContainsOperators) =
     (if looksLikeOperator name
      then scanKeys names (objectContainsAttributes, True)
      else scanKeys names (True, objectContainsOperators))"

section \<open>The query compiler\<close>

text \<open>
  The three closures of \<^verbatim>\<open>toDocumentExpressions\<close> push onto the array \<^verbatim>\<open>expressions\<close> they
  are given; here they take the array and return it with the pushed expressions, or the
  error thrown. \<open>build_loop\<close> is the \<^verbatim>\<open>for\<close> loop of \<^verbatim>\<open>build\<close> over the entries not yet
  visited, \<open>operators_loop\<close> the \<^verbatim>\<open>for\<close> loop of \<^verbatim>\<open>handleValue\<close> over the operators of an
  object, and \<open>values_map\<close> the \<^verbatim>\<open>values.map(...)\<close> of \<^verbatim>\<open>handleOperator\<close>. The argument
  \<open>query\<close> of the handlers is the \<^verbatim>\<open>{query}\<close> that the source hands down for its messages.
  The two equations of \<open>handleValue\<close> are the two sides of its test
  \<^verbatim>\<open>!isPlainObject(value)\<close>. In \<open>handleOperator\<close>, \<^verbatim>\<open>values.map\<close> on a value that is no
  array throws; an opaque object is taken to have no method \<^verbatim>\<open>map\<close>.
\<close>

function (sequential)
    build :: "normalizer \<Rightarrow> query \<Rightarrow> expression list \<Rightarrow> path \<Rightarrow> error + expression list"
and build_loop :: "normalizer \<Rightarrow> query \<Rightarrow> (string \<times> jsvalue) list \<Rightarrow> expression list \<Rightarrow> path
      \<Rightarrow> error + expression list"
and handleValue :: "normalizer \<Rightarrow> jsvalue \<Rightarrow> expression list \<Rightarrow> path \<Rightarrow> query
      \<Rightarrow> error + expression list"
and operators_loop :: "normalizer \<Rightarrow> (string \<times> jsvalue) list \<Rightarrow> expression list \<Rightarrow> path
      \<Rightarrow> query \<Rightarrow> error + expression list"
and handleOperator :: "normalizer \<Rightarrow> string \<Rightarrow> jsvalue \<Rightarrow> expression list \<Rightarrow> path \<Rightarrow> query
      \<Rightarrow> error + expression list"
and values_map :: "normalizer \<Rightarrow> jsvalue list \<Rightarrow> query \<Rightarrow> error + expression list list"
where
  "build norm query expressions path =
     build_loop norm query (Object_entries query) expressions path"
| "build_loop norm query [] expressions path = Inr expressions"
| "build_loop norm query ((name, value) # rest) expressions path =
     (if looksLikeOperator name then
        (if name = ''$and'' \<or> name = ''$or'' \<or> name = ''$nor'' then
           (case handleOperator norm name value expressions path query of
              Inl e \<Rightarrow> Inl e
            | Inr expressions' \<Rightarrow> build_loop norm query rest expressions' path)
         else Inl (UnsupportedRootOperator name query))
      else
        (case handleValue norm value expressions
                (if path \<noteq> [] then path @ ''.'' @ name else name) query of
           Inl e \<Rightarrow> Inl e
         | Inr expressions' \<Rightarrow> build_loop norm query rest expressions' path))"
| "handleValue norm (Obj object) expressions subpath query =
     (case scanKeys (Object_keys object) (False, False) of
        (objectContainsAttributes, objectContainsOperators) \<Rightarrow>
          if objectContainsAttributes then
            (if objectContainsOperators then Inl (InvalidQueryShape object)
             else build norm object expressions subpath)
          else if objectContainsOperators then
            operators_loop norm (Object_entries object) expressions subpath query
          else Inr expressions)"
| "handleValue norm value expressions subpath query =
     Inr (expressions @ [(subpath, ''$equal'', Plain value)])"
| "operators_loop norm [] expressions subpath query = Inr expressions"
| "operators_loop norm ((operator, value) # rest) expressions subpath query =
     (case handleOperator norm operator value expressions subpath query of
        Inl e \<Rightarrow> Inl e
      | Inr expressions' \<Rightarrow> operators_loop norm rest expressions' subpath query)"
| "handleOperator norm operator value expressions path query =
     (case norm operator value query of
        Inl e \<Rightarrow> Inl e
      | Inr normalizedOperator \<Rightarrow>
          if normalizedOperator = ''$some'' \<or> normalizedOperator = ''$every''
             \<or> normalizedOperator = ''$not'' then
            (case handleValue norm value [] [] query of
               Inl e \<Rightarrow> Inl e
             | Inr subexpressions \<Rightarrow>
                 Inr (expressions @ [(path, normalizedOperator, Exprs subexpressions)]))
          else if normalizedOperator = ''$and'' \<or> normalizedOperator = ''$or''
             \<or> normalizedOperator = ''$nor'' then
            (case value of
               Arr values \<Rightarrow>
                 (case values_map norm values query of
                    Inl e \<Rightarrow> Inl e
                  | Inr operatorExpressions \<Rightarrow>
                      Inr (expressions
                           @ [(path, normalizedOperator, ExprLists operatorExpressions)]))
             | _ \<Rightarrow> Inl TypeError)
          else if isPlainObject value then Inl (UnexpectedObjectValue query)
          else Inr (expressions @ [(path, normalizedOperator, Plain value)]))"
| "values_map norm [] query = Inr []"
| "values_map norm (value # values) query =
     (case handleValue norm value [] [] query of
        Inl e \<Rightarrow> Inl e
      | Inr subexpressions \<Rightarrow>
          (case values_map norm values query of
             Inl e \<Rightarrow> Inl e
           | Inr operatorExpressions \<Rightarrow> Inr (subexpressions # operatorExpressions)))"
  by pat_completeness auto

text \<open>
  Every call goes to a strictly smaller value, except the call from \<open>build\<close> to its loop
  and the call from \<open>handleOperator\<close> to \<open>handleValue\<close> on the same value.
\<close>

termination
  apply (relation "measures
     [\<lambda>x. case x of
         Inl (Inl (norm, query, expressions, path)) \<Rightarrow>
           size_list (size_prod (\<lambda>_. 0) size) query
       | Inl (Inr (Inl (norm, query, entries, expressions, path))) \<Rightarrow>
           size_list (size_prod (\<lambda>_. 0) size) entries
       | Inl (Inr (Inr (norm, value, expressions, path, query))) \<Rightarrow> size value
       | Inr (Inl (norm, entries, expressions, path, query)) \<Rightarrow>
           size_list (size_prod (\<lambda>_. 0) size) entries
       | Inr (Inr (Inl (norm, operator, value, expressions, path, query))) \<Rightarrow> size value
       | Inr (Inr (Inr (norm, values, query))) \<Rightarrow> size_list size values,
      \<lambda>x. case x of
         Inl (Inl _) \<Rightarrow> 1
       | Inl (Inr (Inl _)) \<Rightarrow> 0
       | Inl (Inr (Inr _)) \<Rightarrow> 0
       | Inr (Inl _) \<Rightarrow> 0
       | Inr (Inr (Inl _)) \<Rightarrow> (1::nat)
       | Inr (Inr (Inr _)) \<Rightarrow> 0]")
  apply (auto simp: Object_entries_def)
  done

declare handleOperator.simps [simp del] build.simps [simp del]

text \<open>
  \<^verbatim>\<open>toDocument(_storable, value)\<close> ignores the storable and returns
  \<^verbatim>\<open>deserialize(value)\<close>, of the type of \<^verbatim>\<open>value\<close>. \<^verbatim>\<open>deserialize\<close> belongs to the package
  simple-serialization and is a parameter.
\<close>

definition toDocument :: "('v \<Rightarrow> 'v) \<Rightarrow> 's \<Rightarrow> 'v \<Rightarrow> 'v" where
  "toDocument deserialize storable value = deserialize value"

definition toDocumentExpressions ::
  "(query \<Rightarrow> query) \<Rightarrow> normalizer \<Rightarrow> 's \<Rightarrow> query \<Rightarrow> error + expression list" where
  "toDocumentExpressions deserialize norm storable query =
     (let documentQuery = toDocument deserialize storable query
      in build norm documentQuery [] [])"

section \<open>Notions used to state the properties\<close>

text \<open>\<open>appended acc r\<close>: the outcome \<open>r\<close> with \<open>acc\<close> in front of its expressions.\<close>

definition appended :: "expression list \<Rightarrow> error + expression list \<Rightarrow> error + expression list" where
  "appended acc r = (case r of Inl e \<Rightarrow> Inl e | Inr es \<Rightarrow> Inr (acc @ es))"

text \<open>
  A level mixes attributes and operators when one key looks like an operator and another
  does not.
\<close>

definition mixedKeys :: "plainObject \<Rightarrow> bool" where
  "mixedKeys object =
     ((\<exists>name \<in> set (Object_keys object). \<not> looksLikeOperator name)
      \<and> (\<exists>name \<in> set (Object_keys object). looksLikeOperator name))"

text \<open>
  The queries of the first property: at every nesting level every key is an attribute name,
  that is a non-empty string that does not look like an operator. Objects inside arrays are
  values, not levels of the query.
\<close>

function attributesOnly :: "query \<Rightarrow> bool" where
  "attributesOnly [] = True"
| "attributesOnly ((name, value) # rest) =
     (name \<noteq> [] \<and> \<not> looksLikeOperator name
      \<and> (case value of Obj object \<Rightarrow> attributesOnly object | _ \<Rightarrow> True)
      \<and> attributesOnly rest)"
  by pat_completeness auto
termination
  by (relation "measure (size_list (size_prod (\<lambda>_. 0) size))") auto

text \<open>
  The leaves of a query, in the words of the spec: the values that are not plain objects,
  each with the chain of keys that leads to it from the root, in the order of the keys.
  \<open>dotJoin\<close> joins a chain with dots, as \<^verbatim>\<open>chain.join('.')\<close> does, and \<open>leafExpression\<close> is the
  expression the spec expects for a leaf.
\<close>

function leaves :: "string list \<Rightarrow> query \<Rightarrow> (string list \<times> jsvalue) list" where
  "leaves chain [] = []"
| "leaves chain ((name, value) # rest) =
     (case value of
        Obj object \<Rightarrow> leaves (chain @ [name]) object
      | _ \<Rightarrow> [(chain @ [name], value)])
     @ leaves chain rest"
  by pat_completeness auto
termination
  by (relation "measure (\<lambda>(chain, query). size_list (size_prod (\<lambda>_. 0) size) query)") auto

fun dotJoin :: "string list \<Rightarrow> path" where
  "dotJoin [] = []"
| "dotJoin [name] = name"
| "dotJoin (name # names) = name @ ''.'' @ dotJoin names"

definition leafExpression :: "string list \<times> jsvalue \<Rightarrow> expression" where
  "leafExpression leaf = (dotJoin (fst leaf), ''$equal'', Plain (snd leaf))"

section \<open>The store facade\<close>

text \<open>
  \<^verbatim>\<open>params\<close> and \<^verbatim>\<open>options\<close> are plain objects. Destructuring reads a property, which is
  \<^verbatim>\<open>undefined\<close> when the object has no such key, and a default applies to \<^verbatim>\<open>undefined\<close>
  only. Conditions follow JavaScript's truthiness.
\<close>

definition getProperty :: "plainObject \<Rightarrow> string \<Rightarrow> jsvalue" where
  "getProperty object name = (case map_of object name of Some value \<Rightarrow> value | None \<Rightarrow> Undefined)"

definition withDefault :: "jsvalue \<Rightarrow> jsvalue \<Rightarrow> jsvalue" where
  "withDefault value fallback = (if value = Undefined then fallback else value)"

fun truthy :: "jsvalue \<Rightarrow> bool" where
  "truthy Undefined = False"
| "truthy Null = False"
| "truthy (Bool b) = b"
| "truthy (Num n) = (n \<noteq> 0)"
| "truthy (Str s) = (s \<noteq> [])"
| "truthy value = True"

text \<open>
  \<^verbatim>\<open>cloneDeep\<close> (lodash) copies a value. Values are immutable here, so the copy is the value:
  that the log does not share structure with the caller's objects cannot be said in this
  embedding.
\<close>

definition cloneDeep :: "'a \<Rightarrow> 'a" where
  "cloneDeep value = value"

text \<open>
  What \<^verbatim>\<open>getStorableOfType\<close> returns: a registered component class, or its prototype when
  the type names the instances.
\<close>

datatype 'c storable = ComponentClass 'c | ComponentPrototype 'c

text \<open>
  The functions the store imports from \<^verbatim>\<open>@layr/component\<close>, \<^verbatim>\<open>core-helpers\<close>,
  \<^verbatim>\<open>simple-serialization\<close>, \<^verbatim>\<open>./document\<close> and \<^verbatim>\<open>./operator\<close> are not among the sources
  and are parameters, gathered in one record. Those that check their argument may throw;
  the others are taken to return. \<open>co_ensureComponentClass\<close> and \<open>co_getComponentName\<close>
  stand for \<^verbatim>\<open>ensureComponentClass(storable).getComponentName()\<close>.
\<close>

record 'c collaborators =
  co_assertIsComponentType :: "jsvalue \<Rightarrow> error + string"
  co_getComponentNameFromComponentClassType :: "jsvalue \<Rightarrow> error + string"
  co_getComponentNameFromComponentInstanceType :: "jsvalue \<Rightarrow> error + string"
  co_ensureComponentClass :: "'c storable \<Rightarrow> 'c"
  co_getComponentName :: "'c \<Rightarrow> string"
  co_normalizeAttributeSelector :: "jsvalue \<Rightarrow> error + jsvalue"
  co_pickFromAttributeSelector :: "jsvalue \<Rightarrow> jsvalue \<Rightarrow> string list \<Rightarrow> jsvalue"
  co_buildProjection :: "jsvalue \<Rightarrow> jsvalue"
  co_buildDocumentPatch :: "jsvalue \<Rightarrow> jsvalue"
  co_deleteUndefinedProperties :: "jsvalue \<Rightarrow> jsvalue"
  co_serialize :: "jsvalue \<Rightarrow> jsvalue"
  co_deserialize :: "jsvalue \<Rightarrow> jsvalue"
  co_normalizeOperatorForValue :: normalizer

text \<open>
  The six abstract document operations, implemented by a concrete store. Each takes the
  fields of its parameter object and the state of the backend, and returns what the promise
  resolves to, or the error it rejects with, and the new state.
\<close>

record 'b backend =
  createDocument :: "string \<Rightarrow> jsvalue \<Rightarrow> jsvalue \<Rightarrow> 'b \<Rightarrow> (error + bool) \<times> 'b"
  readDocument :: "string \<Rightarrow> jsvalue \<Rightarrow> jsvalue \<Rightarrow> 'b \<Rightarrow> (error + jsvalue) \<times> 'b"
  updateDocument :: "string \<Rightarrow> jsvalue \<Rightarrow> jsvalue \<Rightarrow> 'b \<Rightarrow> (error + bool) \<times> 'b"
  deleteDocument :: "string \<Rightarrow> jsvalue \<Rightarrow> 'b \<Rightarrow> (error + bool) \<times> 'b"
  findDocuments :: "string \<Rightarrow> expression list \<Rightarrow> jsvalue \<Rightarrow> jsvalue \<Rightarrow> jsvalue \<Rightarrow> jsvalue
                    \<Rightarrow> 'b \<Rightarrow> (error + jsvalue list) \<times> 'b"
  countDocuments :: "string \<Rightarrow> expression list \<Rightarrow> 'b \<Rightarrow> (error + int) \<times> 'b"

text \<open>
  An entry of the trace: \<^verbatim>\<open>{operation, params, options, result}\<close> or
  \<^verbatim>\<open>{operation, params, options, error}\<close>; the last argument is \<open>Inr result\<close> or
  \<open>Inl error\<close>. The store itself holds the registered storables, the trace (\<open>None\<close> for
  \<^verbatim>\<open>undefined\<close>) and the state of its backend. A leading underscore of the source is written
  \<open>u_\<close>.
\<close>

datatype traceEntry = TraceEntry string plainObject "plainObject option" "error + jsvalue"

record ('c, 'b) store =
  u_storables :: "string \<Rightarrow> 'c option"
  u_trace :: "traceEntry list option"
  backendState :: 'b

definition u_getStorable :: "('c, 'b) store \<Rightarrow> string \<Rightarrow> 'c option" where
  "u_getStorable this name = u_storables this name"

definition u_getStorableOfType ::
  "'c collaborators \<Rightarrow> ('c, 'b) store \<Rightarrow> jsvalue \<Rightarrow> error + 'c storable option" where
  "u_getStorableOfType env this type =
     (case co_assertIsComponentType env type of
        Inl e \<Rightarrow> Inl e
      | Inr kind \<Rightarrow>
          let isComponentClassType = (kind = ''componentClassType'') in
          case (if isComponentClassType
                then co_getComponentNameFromComponentClassType env type
                else co_getComponentNameFromComponentInstanceType env type) of
            Inl e \<Rightarrow> Inl e
          | Inr componentName \<Rightarrow>
              (case u_getStorable this componentName of
                 None \<Rightarrow> Inr None
               | Some component \<Rightarrow>
                   Inr (Some (if isComponentClassType then ComponentClass component
                              else ComponentPrototype component))))"

definition getStorableOfType ::
  "'c collaborators \<Rightarrow> ('c, 'b) store \<Rightarrow> jsvalue \<Rightarrow> error + 'c storable" where
  "getStorableOfType env this type =
     (case u_getStorableOfType env this type of
        Inl e \<Rightarrow> Inl e
      | Inr (Some storable) \<Rightarrow> Inr storable
      | Inr None \<Rightarrow> Inl (StorableNotRegistered type))"

definition u_getCollectionNameFromStorable :: "'c collaborators \<Rightarrow> 'c storable \<Rightarrow> string" where
  "u_getCollectionNameFromStorable env storable =
     co_getComponentName env (co_ensureComponentClass env storable)"

text \<open>\<^verbatim>\<open>fromDocument(_storable, document)\<close> returns \<^verbatim>\<open>serialize(document)\<close>.\<close>

definition fromDocument :: "(jsvalue \<Rightarrow> jsvalue) \<Rightarrow> 's \<Rightarrow> jsvalue \<Rightarrow> jsvalue" where
  "fromDocument serialize storable document = serialize document"

text \<open>
  \<^verbatim>\<open>_runOperation\<close> reads \<^verbatim>\<open>this._trace\<close>, awaits \<^verbatim>\<open>func()\<close>, pushes an entry when the
  trace it read is defined, and returns the result or throws the error again. The
  operations' closures call the backend and read the registry of storables; they do not
  touch the trace, so \<open>func\<close> acts on the state of the backend. One operation runs at a
  time: operations in flight together are outside this embedding.
\<close>

definition u_runOperation ::
  "string \<Rightarrow> plainObject \<Rightarrow> plainObject option \<Rightarrow> ('b \<Rightarrow> (error + jsvalue) \<times> 'b)
   \<Rightarrow> ('c, 'b) store \<Rightarrow> (error + jsvalue) \<times> ('c, 'b) store" where
  "u_runOperation operation params options func this =
     (let trace = u_trace this in
      case func (backendState this) of
        (Inr result, b) \<Rightarrow>
          (Inr result,
           case trace of
             Some entries \<Rightarrow>
               this\<lparr>backendState := b,
                    u_trace := Some (entries @ [TraceEntry operation (cloneDeep params)
                                                 (cloneDeep options) (Inr result)])\<rparr>
           | None \<Rightarrow> this\<lparr>backendState := b\<rparr>)
      | (Inl error, b) \<Rightarrow>
          (Inl error,
           case trace of
             Some entries \<Rightarrow>
               this\<lparr>backendState := b,
                    u_trace := Some (entries @ [TraceEntry operation (cloneDeep params)
                                                 (cloneDeep options) (Inl error)])\<rparr>
           | None \<Rightarrow> this\<lparr>backendState := b\<rparr>))"

definition getTrace :: "('c, 'b) store \<Rightarrow> error + traceEntry list" where
  "getTrace this =
     (case u_trace this of
        None \<Rightarrow> Inl (External ''The store is not currently tracing'')
      | Some trace \<Rightarrow> Inr trace)"

definition startTrace :: "('c, 'b) store \<Rightarrow> ('c, 'b) store" where
  "startTrace this = this\<lparr>u_trace := Some []\<rparr>"

definition stopTrace :: "('c, 'b) store \<Rightarrow> ('c, 'b) store" where
  "stopTrace this = this\<lparr>u_trace := None\<rparr>"

text \<open>The default \<^verbatim>\<open>options = {}\<close> of \<^verbatim>\<open>load\<close>, \<^verbatim>\<open>save\<close>, \<^verbatim>\<open>delete\<close> and \<^verbatim>\<open>find\<close>.\<close>

definition orEmpty :: "plainObject option \<Rightarrow> plainObject" where
  "orEmpty options = (case options of None \<Rightarrow> [] | Some given \<Rightarrow> given)"

definition load ::
  "'c collaborators \<Rightarrow> 'b backend \<Rightarrow> plainObject \<Rightarrow> plainObject option
   \<Rightarrow> ('c, 'b) store \<Rightarrow> (error + jsvalue) \<times> ('c, 'b) store" where
  "load env backend params optionsGiven this =
     (let options = orEmpty optionsGiven in
      u_runOperation ''load'' params (Some options)
        (\<lambda>b.
           let storableType = getProperty params ''storableType'';
               identifierDescriptor = getProperty params ''identifierDescriptor'';
               attributeSelector = withDefault (getProperty options ''attributeSelector'') (Bool True);
               throwIfMissing = withDefault (getProperty options ''throwIfMissing'') (Bool True)
           in
           case co_normalizeAttributeSelector env attributeSelector of
             Inl e \<Rightarrow> (Inl e, b)
           | Inr attributeSelector \<Rightarrow>
           (case getStorableOfType env this storableType of
             Inl e \<Rightarrow> (Inl e, b)
           | Inr storable \<Rightarrow>
               let collectionName = u_getCollectionNameFromStorable env storable;
                   documentIdentifierDescriptor =
                     toDocument (co_deserialize env) storable identifierDescriptor;
                   documentAttributeSelector =
                     toDocument (co_deserialize env) storable attributeSelector;
                   projection = co_buildProjection env documentAttributeSelector
               in
               case readDocument backend collectionName documentIdentifierDescriptor projection b of
                 (Inl e, b') \<Rightarrow> (Inl e, b')
               | (Inr document, b') \<Rightarrow>
                   if document \<noteq> Undefined then
                     (let picked = co_pickFromAttributeSelector env document
                                     documentAttributeSelector [''__component''];
                          serializedStorable = fromDocument (co_serialize env) storable picked
                      in (Inr serializedStorable, b'))
                   else if \<not> truthy throwIfMissing then (Inr Undefined, b')
                   else (Inl (MissingFromStore ''load'' storableType identifierDescriptor), b')))
        this)"

definition save ::
  "'c collaborators \<Rightarrow> 'b backend \<Rightarrow> plainObject \<Rightarrow> plainObject option
   \<Rightarrow> ('c, 'b) store \<Rightarrow> (error + jsvalue) \<times> ('c, 'b) store" where
  "save env backend params optionsGiven this =
     (let options = orEmpty optionsGiven in
      u_runOperation ''save'' params (Some options)
        (\<lambda>b.
           let storableType = getProperty params ''storableType'';
               identifierDescriptor = getProperty params ''identifierDescriptor'';
               serializedStorable = getProperty params ''serializedStorable'';
               isNew = withDefault (getProperty params ''isNew'') (Bool False);
               throwIfMissing =
                 withDefault (getProperty options ''throwIfMissing'') (Bool (\<not> truthy isNew));
               throwIfExists = withDefault (getProperty options ''throwIfExists'') isNew
           in
           if throwIfMissing = Bool True \<and> throwIfExists = Bool True then (Inl OptionsConflict, b)
           else
           (case getStorableOfType env this storableType of
             Inl e \<Rightarrow> (Inl e, b)
           | Inr storable \<Rightarrow>
               let collectionName = u_getCollectionNameFromStorable env storable;
                   documentIdentifierDescriptor =
                     toDocument (co_deserialize env) storable identifierDescriptor;
                   document = toDocument (co_deserialize env) storable serializedStorable
               in
               case (if truthy isNew then
                       createDocument backend collectionName documentIdentifierDescriptor
                         (co_deleteUndefinedProperties env document) b
                     else
                       updateDocument backend collectionName documentIdentifierDescriptor
                         (co_buildDocumentPatch env document) b) of
                 (Inl e, b') \<Rightarrow> (Inl e, b')
               | (Inr wasSaved, b') \<Rightarrow>
                   if \<not> wasSaved then
                     (if truthy throwIfMissing then
                        (Inl (MissingFromStore ''save'' storableType identifierDescriptor), b')
                      else if truthy throwIfExists then
                        (Inl (AlreadyExistsInStore storableType identifierDescriptor), b')
                      else (Inr (Bool wasSaved), b'))
                   else (Inr (Bool wasSaved), b')))
        this)"

definition delete ::
  "'c collaborators \<Rightarrow> 'b backend \<Rightarrow> plainObject \<Rightarrow> plainObject option
   \<Rightarrow> ('c, 'b) store \<Rightarrow> (error + jsvalue) \<times> ('c, 'b) store" where
  "delete env backend params optionsGiven this =
     (let options = orEmpty optionsGiven in
      u_runOperation ''delete'' params (Some options)
        (\<lambda>b.
           let storableType = getProperty params ''storableType'';
               identifierDescriptor = getProperty params ''identifierDescriptor'';
               throwIfMissing = withDefault (getProperty options ''throwIfMissing'') (Bool True)
           in
           case getStorableOfType env this storableType of
             Inl e \<Rightarrow> (Inl e, b)
           | Inr storable \<Rightarrow>
               let collectionName = u_getCollectionNameFromStorable env storable;
                   documentIdentifierDescriptor =
                     toDocument (co_deserialize env) storable identifierDescriptor
               in
               case deleteDocument backend collectionName documentIdentifierDescriptor b of
                 (Inl e, b') \<Rightarrow> (Inl e, b')
               | (Inr wasDeleted, b') \<Rightarrow>
                   if \<not> wasDeleted then
                     (if truthy throwIfMissing then
                        (Inl (MissingFromStore ''delete'' storableType identifierDescriptor), b')
                      else (Inr (Bool wasDeleted), b'))
                   else (Inr (Bool wasDeleted), b'))
        this)"

text \<open>
  \<^verbatim>\<open>Object.entries\<close> on a value of any type, as the runtime has it: the entries of a plain
  object; the elements of an array and the characters of a string under their indices,
  written in decimal; nothing for a number or a boolean; a \<open>TypeError\<close> for \<^verbatim>\<open>null\<close> and
  \<^verbatim>\<open>undefined\<close>. An opaque object carries no property in this embedding and has no entry.
\<close>

function decimal :: "nat \<Rightarrow> string" where
  "decimal n =
     (if n < 10 then [''0123456789'' ! n]
      else decimal (n div 10) @ [''0123456789'' ! (n mod 10)])"
  by pat_completeness auto
termination
  by (relation "measure (\<lambda>n. n)") auto

fun Object_entries_value :: "jsvalue \<Rightarrow> error + plainObject" where
  "Object_entries_value (Obj object) = Inr (Object_entries object)"
| "Object_entries_value (Arr elements) =
     Inr (zip (map decimal [0..<length elements]) elements)"
| "Object_entries_value (Str characters) =
     Inr (zip (map decimal [0..<length characters]) (map (\<lambda>c. Str [c]) characters))"
| "Object_entries_value Undefined = Inl TypeError"
| "Object_entries_value Null = Inl TypeError"
| "Object_entries_value value = Inr []"

text \<open>
  \<^verbatim>\<open>find\<close> and \<^verbatim>\<open>count\<close> hand \<^verbatim>\<open>toDocumentExpressions\<close> whatever the caller put under
  \<^verbatim>\<open>query\<close> (\<^verbatim>\<open>{}\<close> when it is \<^verbatim>\<open>undefined\<close>), which need not be a plain object at run time.
  \<open>toDocumentExpressionsOfValue\<close> is \<^verbatim>\<open>toDocumentExpressions\<close> on such a value: \<^verbatim>\<open>build\<close>
  enumerates \<^verbatim>\<open>Object.entries\<close> of what \<^verbatim>\<open>toDocument\<close> returned. For a plain object these are
  its entries, and the function is \<open>toDocumentExpressions\<close>; a value of another type is
  represented, also in the messages, by its entries.
\<close>

definition queryParam :: "plainObject \<Rightarrow> jsvalue" where
  "queryParam params = withDefault (getProperty params ''query'') (Obj [])"

definition toDocumentExpressionsOfValue ::
  "(jsvalue \<Rightarrow> jsvalue) \<Rightarrow> normalizer \<Rightarrow> 's \<Rightarrow> jsvalue \<Rightarrow> error + expression list" where
  "toDocumentExpressionsOfValue deserialize norm storable query =
     (let documentQuery = toDocument deserialize storable query
      in case Object_entries_value documentQuery of
           Inl e \<Rightarrow> Inl e
         | Inr entries \<Rightarrow> build norm entries [] [])"

text \<open>\<^verbatim>\<open>find\<close>; the name is primed, \<open>find\<close> being a function on lists.\<close>

definition find' ::
  "'c collaborators \<Rightarrow> 'b backend \<Rightarrow> plainObject \<Rightarrow> plainObject option
   \<Rightarrow> ('c, 'b) store \<Rightarrow> (error + jsvalue) \<times> ('c, 'b) store" where
  "find' env backend params optionsGiven this =
     (let options = orEmpty optionsGiven in
      u_runOperation ''find'' params (Some options)
        (\<lambda>b.
           let storableType = getProperty params ''storableType'';
               query = queryParam params;
               sort = withDefault (getProperty params ''sort'') (Obj []);
               skip = getProperty params ''skip'';
               limit = getProperty params ''limit'';
               attributeSelector = withDefault (getProperty options ''attributeSelector'') (Bool True)
           in
           case co_normalizeAttributeSelector env attributeSelector of
             Inl e \<Rightarrow> (Inl e, b)
           | Inr attributeSelector \<Rightarrow>
           (case getStorableOfType env this storableType of
             Inl e \<Rightarrow> (Inl e, b)
           | Inr storable \<Rightarrow>
               let collectionName = u_getCollectionNameFromStorable env storable in
               case toDocumentExpressionsOfValue (co_deserialize env)
                      (co_normalizeOperatorForValue env) storable query of
                 Inl e \<Rightarrow> (Inl e, b)
               | Inr documentExpressions \<Rightarrow>
                   let documentSort = toDocument (co_deserialize env) storable sort;
                       documentAttributeSelector =
                         toDocument (co_deserialize env) storable attributeSelector;
                       projection = co_buildProjection env documentAttributeSelector
                   in
                   case findDocuments backend collectionName documentExpressions projection
                          documentSort skip limit b of
                     (Inl e, b') \<Rightarrow> (Inl e, b')
                   | (Inr documents, b') \<Rightarrow>
                       let picked = map (\<lambda>document.
                               co_pickFromAttributeSelector env document
                                 documentAttributeSelector [''__component'']) documents;
                           serializedStorables =
                             map (\<lambda>document. fromDocument (co_serialize env) storable document)
                               picked
                       in (Inr (Arr serializedStorables), b')))
        this)"

definition count ::
  "'c collaborators \<Rightarrow> 'b backend \<Rightarrow> plainObject
   \<Rightarrow> ('c, 'b) store \<Rightarrow> (error + jsvalue) \<times> ('c, 'b) store" where
  "count env backend params this =
     u_runOperation ''find'' params None
       (\<lambda>b.
          let storableType = getProperty params ''storableType'';
              query = queryParam params
          in
          case getStorableOfType env this storableType of
            Inl e \<Rightarrow> (Inl e, b)
          | Inr storable \<Rightarrow>
              let collectionName = u_getCollectionNameFromStorable env storable in
              case toDocumentExpressionsOfValue (co_deserialize env)
                     (co_normalizeOperatorForValue env) storable query of
                Inl e \<Rightarrow> (Inl e, b)
              | Inr documentExpressions \<Rightarrow>
                  (case countDocuments backend collectionName documentExpressions b of
                     (Inl e, b') \<Rightarrow> (Inl e, b')
                   | (Inr documentsCount, b') \<Rightarrow> (Inr (Num documentsCount), b')))
       this"

section \<open>A store to run the operations on\<close>

text \<open>
  Collaborators that pass values through, with component types that name the instances
  of a class; a backend that reports absence on every read, update and delete, reports the
  identifier as present on every create and finds nothing, and whose state is the list of
  the calls it received; a store in which the class \<^verbatim>\<open>Movie\<close> is registered, tracing, with
  an empty trace.
\<close>

definition exampleCollaborators :: "string collaborators" where
  "exampleCollaborators =
     \<lparr> co_assertIsComponentType = (\<lambda>type. Inr ''componentInstanceType''),
       co_getComponentNameFromComponentClassType =
         (\<lambda>type. case type of Str name \<Rightarrow> Inr name | _ \<Rightarrow> Inl (External ''no component type'')),
       co_getComponentNameFromComponentInstanceType =
         (\<lambda>type. case type of Str name \<Rightarrow> Inr name | _ \<Rightarrow> Inl (External ''no component type'')),
       co_ensureComponentClass =
         (\<lambda>storable. case storable of ComponentClass c \<Rightarrow> c | ComponentPrototype c \<Rightarrow> c),
       co_getComponentName = (\<lambda>component. component),
       co_normalizeAttributeSelector = Inr,
       co_pickFromAttributeSelector = (\<lambda>document selector names. document),
       co_buildProjection = (\<lambda>selector. selector),
       co_buildDocumentPatch = (\<lambda>document. document),
       co_deleteUndefinedProperties = (\<lambda>document. document),
       co_serialize = (\<lambda>value. value),
       co_deserialize = (\<lambda>value. value),
       co_normalizeOperatorForValue = normalizeOperatorForValue [] \<rparr>"

definition refusingBackend :: "string list backend" where
  "refusingBackend =
     \<lparr> createDocument = (\<lambda>collectionName identifierDescriptor document calls.
         (Inr False, calls @ [''createDocument''])),
       readDocument = (\<lambda>collectionName identifierDescriptor projection calls.
         (Inr Undefined, calls @ [''readDocument''])),
       updateDocument = (\<lambda>collectionName identifierDescriptor documentPatch calls.
         (Inr False, calls @ [''updateDocument''])),
       deleteDocument = (\<lambda>collectionName identifierDescriptor calls.
         (Inr False, calls @ [''deleteDocument''])),
       findDocuments = (\<lambda>collectionName expressions projection sort skip limit calls.
         (Inr [], calls @ [''findDocuments''])),
       countDocuments = (\<lambda>collectionName expressions calls.
         (Inr 0, calls @ [''countDocuments''])) \<rparr>"

definition exampleStore :: "(string, string list) store" where
  "exampleStore =
     \<lparr> u_storables = [''Movie'' \<mapsto> ''Movie''], u_trace = Some [], backendState = [] \<rparr>"

section \<open>The levels a compilation reaches\<close>

text \<open>
  The plain objects that \<open>handleValue\<close> is called on in one run of the compiler, in the order
  of the calls: the levels of the query below its root. The five functions follow the five
  loops and handlers call by call, with the arguments these are given, and stop where the
  run stops: behind an entry, an operator or an element that throws, nothing is reached.
  The object itself is reached before its keys are scanned.
\<close>

function (sequential)
    buildLevels :: "normalizer \<Rightarrow> query \<Rightarrow> (string \<times> jsvalue) list \<Rightarrow> expression list \<Rightarrow> path
      \<Rightarrow> plainObject list"
and valueLevels :: "normalizer \<Rightarrow> jsvalue \<Rightarrow> expression list \<Rightarrow> path \<Rightarrow> query
      \<Rightarrow> plainObject list"
and operatorsLevels :: "normalizer \<Rightarrow> (string \<times> jsvalue) list \<Rightarrow> expression list \<Rightarrow> path
      \<Rightarrow> query \<Rightarrow> plainObject list"
and operandLevels :: "normalizer \<Rightarrow> string \<Rightarrow> jsvalue \<Rightarrow> expression list \<Rightarrow> path \<Rightarrow> query
      \<Rightarrow> plainObject list"
and elementsLevels :: "normalizer \<Rightarrow> jsvalue list \<Rightarrow> query \<Rightarrow> plainObject list"
where
  "buildLevels norm query [] expressions path = []"
| "buildLevels norm query ((name, value) # rest) expressions path =
     (if looksLikeOperator name then
        (if name = ''$and'' \<or> name = ''$or'' \<or> name = ''$nor'' then
           operandLevels norm name value expressions path query
           @ (case handleOperator norm name value expressions path query of
                Inl e \<Rightarrow> []
              | Inr expressions' \<Rightarrow> buildLevels norm query rest expressions' path)
         else [])
      else
        valueLevels norm value expressions
          (if path \<noteq> [] then path @ ''.'' @ name else name) query
        @ (case handleValue norm value expressions
                  (if path \<noteq> [] then path @ ''.'' @ name else name) query of
             Inl e \<Rightarrow> []
           | Inr expressions' \<Rightarrow> buildLevels norm query rest expressions' path))"
| "valueLevels norm (Obj object) expressions subpath query =
     object #
     (case scanKeys (Object_keys object) (False, False) of
        (objectContainsAttributes, objectContainsOperators) \<Rightarrow>
          if objectContainsAttributes then
            (if objectContainsOperators then []
             else buildLevels norm object (Object_entries object) expressions subpath)
          else if objectContainsOperators then
            operatorsLevels norm (Object_entries object) expressions subpath query
          else [])"
| "valueLevels norm value expressions subpath query = []"
| "operatorsLevels norm [] expressions subpath query = []"
| "operatorsLevels norm ((operator, value) # rest) expressions subpath query =
     operandLevels norm operator value expressions subpath query
     @ (case handleOperator norm operator value expressions subpath query of
          Inl e \<Rightarrow> []
        | Inr expressions' \<Rightarrow> operatorsLevels norm rest expressions' subpath query)"
| "operandLevels norm operator value expressions path query =
     (case norm operator value query of
        Inl e \<Rightarrow> []
      | Inr normalizedOperator \<Rightarrow>
          if normalizedOperator = ''$some'' \<or> normalizedOperator = ''$every''
             \<or> normalizedOperator = ''$not'' then
            valueLevels norm value [] [] query
          else if normalizedOperator = ''$and'' \<or> normalizedOperator = ''$or''
             \<or> normalizedOperator = ''$nor'' then
            (case value of
               Arr values \<Rightarrow> elementsLevels norm values query
             | _ \<Rightarrow> [])
          else [])"
| "elementsLevels norm [] query = []"
| "elementsLevels norm (value # values) query =
     valueLevels norm value [] [] query
     @ (case handleValue norm value [] [] query of
          Inl e \<Rightarrow> []
        | Inr subexpressions \<Rightarrow> elementsLevels norm values query)"
  by pat_completeness auto

termination
  apply (relation "measures
     [\<lambda>x. case x of
         Inl (Inl (norm, query, entries, expressions, path)) \<Rightarrow>
           size_list (size_prod (\<lambda>_. 0) size) entries
       | Inl (Inr (norm, value, expressions, path, query)) \<Rightarrow> size value
       | Inr (Inl (norm, entries, expressions, path, query)) \<Rightarrow>
           size_list (size_prod (\<lambda>_. 0) size) entries
       | Inr (Inr (Inl (norm, operator, value, expressions, path, query))) \<Rightarrow> size value
       | Inr (Inr (Inr (norm, values, query))) \<Rightarrow> size_list size values,
      \<lambda>x. case x of
         Inl (Inl _) \<Rightarrow> 0
       | Inl (Inr _) \<Rightarrow> 0
       | Inr (Inl _) \<Rightarrow> 0
       | Inr (Inr (Inl _)) \<Rightarrow> (1::nat)
       | Inr (Inr (Inr _)) \<Rightarrow> 0]")
  apply (auto simp: Object_entries_def)
  done

declare operandLevels.simps [simp del]

section \<open>Emission in the order of the keys\<close>











section \<open>The compiler only appends\<close>

lemma appended_simps [simp]:
  "appended acc (Inl e) = Inl e"
  "appended acc (Inr es) = Inr (acc @ es)"
  by (simp_all add: appended_def)

lemma appended_Nil [simp]: "appended [] r = r"
  by (cases r) simp_all

lemma appended_appended: "appended acc (appended es r) = appended (acc @ es) r"
  by (cases r) simp_all

lemma scanKeys_flags:
  "scanKeys names (a, b) =
     (a \<or> (\<exists>name \<in> set names. \<not> looksLikeOperator name),
      b \<or> (\<exists>name \<in> set names. looksLikeOperator name))"
  by (induction names arbitrary: a b) auto

lemma handleValue_not_plain:
  "\<not> isPlainObject value \<Longrightarrow>
   handleValue norm value expressions subpath query =
     Inr (expressions @ [(subpath, ''$equal'', Plain value)])"
  by (cases "value") simp_all

lemma handleValue_empty_object:
  "handleValue norm (Obj []) expressions subpath query = Inr expressions"
  by (simp add: Object_keys_def)

lemma looksLikeOperator_simps [simp]:
  "looksLikeOperator [] = False"
  "looksLikeOperator (c # cs) = (c = CHR ''$'')"
  by (simp_all add: looksLikeOperator_def)

text \<open>
  Two steps in sequence, each of which only appends, only append. The second step is
  known to append only once the first has succeeded on some array \<open>x\<close>.
\<close>

lemma seq_append_only:
  fixes f g :: "expression list \<Rightarrow> error + expression list"
  assumes f: "\<forall>acc. f acc = appended acc (f [])"
      and g: "\<And>b. f x = Inr b \<Longrightarrow> \<forall>acc. g acc = appended acc (g [])"
  shows "\<forall>acc. (case f acc of Inl e \<Rightarrow> Inl e | Inr acc' \<Rightarrow> g acc')
           = appended acc (case f [] of Inl e \<Rightarrow> Inl e | Inr acc' \<Rightarrow> g acc')"
proof (cases "f []")
  case (Inl e)
  have "f acc = Inl e" for acc
    using f[rule_format, of acc] Inl by simp
  with Inl show ?thesis by simp
next
  case (Inr es)
  have facc: "f acc = Inr (acc @ es)" for acc
    using f[rule_format, of acc] Inr by simp
  from g[OF facc[of x]] have gg: "g acc = appended acc (g [])" for acc
    by blast
  show ?thesis
  proof
    fix acc
    have "g (acc @ es) = appended acc (g es)"
      using gg[of "acc @ es"] gg[of es] by (simp add: appended_appended)
    with facc[of acc] Inr
    show "(case f acc of Inl e \<Rightarrow> Inl e | Inr acc' \<Rightarrow> g acc')
           = appended acc (case f [] of Inl e \<Rightarrow> Inl e | Inr acc' \<Rightarrow> g acc')"
      by simp
  qed
qed

lemma handleOperator_append_only:
  "handleOperator norm operator v acc p q = appended acc (handleOperator norm operator v [] p q)"
proof (cases "norm operator v q")
  case (Inl e)
  then show ?thesis by (simp add: handleOperator.simps)
next
  case (Inr nop)
  show ?thesis
  proof (cases "nop = ''$some'' \<or> nop = ''$every'' \<or> nop = ''$not''")
    case True
    with Inr show ?thesis
      by (cases "handleValue norm v [] [] q") (simp_all add: handleOperator.simps)
  next
    case False
    note nq = this
    show ?thesis
    proof (cases "nop = ''$and'' \<or> nop = ''$or'' \<or> nop = ''$nor''")
      case True
      with Inr nq show ?thesis
        by (cases v) (simp_all add: handleOperator.simps split: sum.splits)
    next
      case False
      with Inr nq show ?thesis by (simp add: handleOperator.simps)
    qed
  qed
qed

lemma append_only_all:
  "\<forall>acc. build norm q acc p = appended acc (build norm q [] p)"
  "\<forall>acc. build_loop norm q entries acc p = appended acc (build_loop norm q entries [] p)"
  "\<forall>acc. handleValue norm v acc p q = appended acc (handleValue norm v [] p q)"
  "\<forall>acc. operators_loop norm entries acc p q
     = appended acc (operators_loop norm entries [] p q)"
  "True"
  "True"
proof (induct norm q "d1 :: expression list" p and norm q entries "d2 :: expression list" p
         and norm v "d3 :: expression list" p q
         and norm entries "d4 :: expression list" p q
         and norm "operator :: string" v "d5 :: expression list" p q
         and norm "vs :: jsvalue list" q
       rule: build_build_loop_handleValue_operators_loop_handleOperator_values_map.induct)
  case (1 norm query expressions path)
  show ?case unfolding build.simps by (rule 1)
next
  case (2 norm query expressions path)
  show ?case by simp
next
  case (3 norm query name "value" rest expressions path)
  have ho: "\<forall>acc. handleOperator norm name value acc path query
                  = appended acc (handleOperator norm name value [] path query)"
    using handleOperator_append_only by blast
  show ?case
  proof (cases "looksLikeOperator name")
    case True
    note op = this
    show ?thesis
    proof (cases "name = ''$and'' \<or> name = ''$or'' \<or> name = ''$nor''")
      case False
      with op show ?thesis by simp
    next
      case True
      have unf: "build_loop norm query ((name, value) # rest) acc path
          = (case handleOperator norm name value acc path query of
               Inl e \<Rightarrow> Inl e | Inr acc' \<Rightarrow> build_loop norm query rest acc' path)" for acc
        using op True by simp
      show ?thesis
        unfolding unf
        by (rule seq_append_only[where f = "\<lambda>acc. handleOperator norm name value acc path query"
             and g = "\<lambda>acc. build_loop norm query rest acc path" and x = expressions,
             OF ho 3(2)[OF op True]])
    qed
  next
    case False
    note attr = this
    let ?sp = "if path \<noteq> [] then path @ ''.'' @ name else name"
    have unf: "build_loop norm query ((name, value) # rest) acc path
          = (case handleValue norm value acc ?sp query of
               Inl e \<Rightarrow> Inl e | Inr acc' \<Rightarrow> build_loop norm query rest acc' path)" for acc
      using attr by simp
    show ?thesis
      unfolding unf
      by (rule seq_append_only[where f = "\<lambda>acc. handleValue norm value acc ?sp query"
             and g = "\<lambda>acc. build_loop norm query rest acc path" and x = expressions,
             OF 3(3)[OF attr] 3(4)[OF attr]])
  qed
next
  case (4 norm object expressions subpath query)
  obtain a b where sk: "scanKeys (Object_keys object) (False, False) = (a, b)"
    by (cases "scanKeys (Object_keys object) (False, False)")
  show ?case
  proof (cases a)
    case True
    show ?thesis
    proof (cases b)
      case True
      with \<open>a\<close> sk show ?thesis by simp
    next
      case False
      have unf: "handleValue norm (Obj object) acc subpath query = build norm object acc subpath"
        for acc using sk \<open>a\<close> False by simp
      show ?thesis unfolding unf by (rule 4(1)[OF sk[symmetric] \<open>a\<close> False])
    qed
  next
    case False
    note na = this
    show ?thesis
    proof (cases b)
      case True
      have unf: "handleValue norm (Obj object) acc subpath query
                   = operators_loop norm (Object_entries object) acc subpath query"
        for acc using sk na True by simp
      show ?thesis unfolding unf by (rule 4(2)[OF sk[symmetric] na True])
    next
      case False
      with sk na show ?thesis by simp
    qed
  qed
next
  case (7 norm operator "value" rest expressions subpath query)
  have ho: "\<forall>acc. handleOperator norm operator value acc subpath query
                  = appended acc (handleOperator norm operator value [] subpath query)"
    using handleOperator_append_only by blast
  show ?case
    unfolding operators_loop.simps
    by (rule seq_append_only[where
           f = "\<lambda>acc. handleOperator norm operator value acc subpath query"
         and g = "\<lambda>acc. operators_loop norm rest acc subpath query" and x = expressions,
         OF ho 7(2)])
qed (simp_all (no_asm))

lemma build_append_only:
  "build norm q acc p = appended acc (build norm q [] p)"
  using append_only_all(1) by blast

lemma build_loop_append_only:
  "build_loop norm q entries acc p = appended acc (build_loop norm q entries [] p)"
  using append_only_all(2) by blast

lemma handleValue_append_only:
  "handleValue norm v acc p q = appended acc (handleValue norm v [] p q)"
  using append_only_all(3) by blast

lemma operators_loop_append_only:
  "operators_loop norm entries acc p q = appended acc (operators_loop norm entries [] p q)"
  using append_only_all(4) by blast

section \<open>Loops over concatenated inputs, failures\<close>

lemma build_loop_append:
  "build_loop norm q (xs @ ys) acc p =
     (case build_loop norm q xs acc p of
        Inl e \<Rightarrow> Inl e
      | Inr acc' \<Rightarrow> build_loop norm q ys acc' p)"
proof (induction xs arbitrary: acc)
  case Nil
  show ?case by simp
next
  case (Cons x xs)
  obtain name "value" where x: "x = (name, value)" by (cases x)
  show ?case
  proof (cases "looksLikeOperator name")
    case True
    note op = this
    show ?thesis
    proof (cases "name = ''$and'' \<or> name = ''$or'' \<or> name = ''$nor''")
      case False
      with op show ?thesis unfolding x by simp
    next
      case True
      show ?thesis
      proof (cases "handleOperator norm name value acc p q")
        case (Inl e)
        with op True show ?thesis unfolding x by simp
      next
        case (Inr acc')
        with op True show ?thesis unfolding x by (simp add: Cons.IH)
      qed
    qed
  next
    case False
    show ?thesis
    proof (cases "handleValue norm value acc (if p \<noteq> [] then p @ ''.'' @ name else name) q")
      case (Inl e)
      with False show ?thesis unfolding x by simp
    next
      case (Inr acc')
      with False show ?thesis unfolding x by (simp add: Cons.IH)
    qed
  qed
qed

lemma operators_loop_append:
  "operators_loop norm (xs @ ys) acc p q =
     (case operators_loop norm xs acc p q of
        Inl e \<Rightarrow> Inl e
      | Inr acc' \<Rightarrow> operators_loop norm ys acc' p q)"
proof (induction xs arbitrary: acc)
  case Nil
  show ?case by simp
next
  case (Cons x xs)
  obtain name "value" where x: "x = (name, value)" by (cases x)
  show ?case
    unfolding x by (simp add: Cons.IH split: sum.split)
qed

lemma values_map_append:
  "values_map norm (vs @ ws) q =
     (case values_map norm vs q of
        Inl e \<Rightarrow> Inl e
      | Inr ls \<Rightarrow>
          (case values_map norm ws q of
             Inl e \<Rightarrow> Inl e
           | Inr ms \<Rightarrow> Inr (ls @ ms)))"
  by (induction vs) (simp_all split: sum.split)

lemma values_map_list_all2:
  "(values_map norm vs q = Inr ls)
     = list_all2 (\<lambda>v sub. handleValue norm v [] [] q = Inr sub) vs ls"
proof (induction vs arbitrary: ls)
  case Nil
  show ?case by auto
next
  case (Cons v vs)
  have ih: "list_all2 (\<lambda>v sub. handleValue norm v [] [] q = Inr sub) vs ms
              = (values_map norm vs q = Inr ms)" for ms
    using Cons.IH[of ms] by simp
  show ?case
  proof (cases "handleValue norm v [] [] q")
    case (Inl e)
    then show ?thesis by (simp add: list_all2_Cons1)
  next
    case (Inr sub)
    show ?thesis
    proof (cases "values_map norm vs q")
      case (Inl e)
      with Inr show ?thesis by (simp add: list_all2_Cons1 ih)
    next
      case (Inr ms)
      with \<open>handleValue norm v [] [] q = Inr sub\<close> show ?thesis
        by (simp add: list_all2_Cons1 ih) blast
    qed
  qed
qed

lemma handleValue_mixed:
  assumes "mixedKeys object"
  shows "handleValue norm (Obj object) expressions subpath query = Inl (InvalidQueryShape object)"
  using assms by (simp add: scanKeys_flags mixedKeys_def)


lemma toDocumentExpressions_unfold:
  "toDocumentExpressions deserialize norm storable query
     = build_loop norm (deserialize query) (deserialize query) [] []"
  by (simp add: toDocumentExpressions_def toDocument_def build.simps Object_entries_def Let_def)

lemma toDocumentExpressionsOfValue_plainObject:
  "deserialize value = Obj documentQuery \<Longrightarrow>
   toDocumentExpressionsOfValue deserialize norm storable value
     = toDocumentExpressions (\<lambda>query. documentQuery) norm storable documentQuery"
  by (simp add: toDocumentExpressionsOfValue_def toDocumentExpressions_unfold toDocument_def
        build.simps Object_entries_def)

section \<open>A mixed level that is reached\<close>

text \<open>
  \<open>handleValue\<close> on an object, with the two flags of its scan written out; then the main
  fact: a level that the run reaches and whose keys are mixed makes every enclosing handler
  and loop fail with \<open>InvalidQueryShape\<close> for that level. The lemmas after it say how an
  error goes up through each construct.
\<close>

lemma handleValue_object:
  "handleValue norm (Obj object) acc p q =
     (if mixedKeys object then Inl (InvalidQueryShape object)
      else if \<exists>name \<in> set (Object_keys object). \<not> looksLikeOperator name
      then build_loop norm object object acc p
      else operators_loop norm object acc p q)"
proof (cases "\<exists>name \<in> set (Object_keys object). looksLikeOperator name")
  case True
  then show ?thesis
    by (simp add: scanKeys_flags mixedKeys_def build.simps Object_entries_def)
next
  case False
  show ?thesis
  proof (cases "object = []")
    case True
    then show ?thesis
      by (simp add: scanKeys_flags mixedKeys_def Object_keys_def)
  next
    case nonempty: False
    from False have "\<forall>name \<in> set (Object_keys object). \<not> looksLikeOperator name" by blast
    moreover from nonempty have "\<exists>name. name \<in> set (Object_keys object)"
      by (cases object) (auto simp: Object_keys_def)
    ultimately have "\<exists>name \<in> set (Object_keys object). \<not> looksLikeOperator name" by blast
    with False show ?thesis
      by (simp add: scanKeys_flags mixedKeys_def build.simps Object_entries_def)
  qed
qed


lemma valueLevels_object:
  "valueLevels norm (Obj object) acc p q =
     object #
     (if mixedKeys object then []
      else if \<exists>name \<in> set (Object_keys object). \<not> looksLikeOperator name
      then buildLevels norm object object acc p
      else operatorsLevels norm object acc p q)"
proof (cases "\<exists>name \<in> set (Object_keys object). looksLikeOperator name")
  case True
  then show ?thesis
    by (simp add: scanKeys_flags mixedKeys_def Object_entries_def)
next
  case False
  show ?thesis
  proof (cases "object = []")
    case True
    then show ?thesis
      by (simp add: scanKeys_flags mixedKeys_def Object_keys_def)
  next
    case nonempty: False
    from False have "\<forall>name \<in> set (Object_keys object). \<not> looksLikeOperator name" by blast
    moreover from nonempty have "\<exists>name. name \<in> set (Object_keys object)"
      by (cases object) (auto simp: Object_keys_def)
    ultimately have "\<exists>name \<in> set (Object_keys object). \<not> looksLikeOperator name" by blast
    with False show ?thesis
      by (simp add: scanKeys_flags mixedKeys_def Object_entries_def)
  qed
qed

lemma reached_mixed_level_fails:
  "\<forall>level \<in> set (buildLevels norm q q d1 p). mixedKeys level
     \<longrightarrow> build norm q d1 p = Inl (InvalidQueryShape level)"
  "\<forall>level \<in> set (buildLevels norm q entries d2 p). mixedKeys level
     \<longrightarrow> build_loop norm q entries d2 p = Inl (InvalidQueryShape level)"
  "\<forall>level \<in> set (valueLevels norm v d3 p q). mixedKeys level
     \<longrightarrow> handleValue norm v d3 p q = Inl (InvalidQueryShape level)"
  "\<forall>level \<in> set (operatorsLevels norm entries d4 p q). mixedKeys level
     \<longrightarrow> operators_loop norm entries d4 p q = Inl (InvalidQueryShape level)"
  "\<forall>level \<in> set (operandLevels norm operator v d5 p q). mixedKeys level
     \<longrightarrow> handleOperator norm operator v d5 p q = Inl (InvalidQueryShape level)"
  "\<forall>level \<in> set (elementsLevels norm vs q). mixedKeys level
     \<longrightarrow> values_map norm vs q = Inl (InvalidQueryShape level)"
proof (induct norm q d1 p and norm q entries d2 p and norm v d3 p q and norm entries d4 p q
         and norm operator v d5 p q and norm vs q
       rule: build_build_loop_handleValue_operators_loop_handleOperator_values_map.induct)
  case (1 norm query expressions path)
  then show ?case by (simp add: build.simps Object_entries_def)
next
  case (2 norm query expressions path)
  show ?case by simp
next
  case (3 norm query name "value" rest expressions path)
  show ?case
  proof (intro ballI impI)
    fix level
    assume reached: "level \<in> set (buildLevels norm query ((name, value) # rest) expressions path)"
      and mixed: "mixedKeys level"
    show "build_loop norm query ((name, value) # rest) expressions path
            = Inl (InvalidQueryShape level)"
    proof (cases "looksLikeOperator name")
      case True
      note op = this
      show ?thesis
      proof (cases "name = ''$and'' \<or> name = ''$or'' \<or> name = ''$nor''")
        case False
        with op reached show ?thesis by simp
      next
        case True
        show ?thesis
        proof (cases "handleOperator norm name value expressions path query")
          case (Inl e)
          with op True reached
          have "level \<in> set (operandLevels norm name value expressions path query)" by simp
          with 3(1)[OF op True] mixed
          have "handleOperator norm name value expressions path query
                  = Inl (InvalidQueryShape level)" by blast
          with op True show ?thesis by simp
        next
          case (Inr b)
          show ?thesis
          proof (cases "level \<in> set (operandLevels norm name value expressions path query)")
            case True
            with 3(1)[OF op \<open>name = ''$and'' \<or> name = ''$or'' \<or> name = ''$nor''\<close>] mixed
            have "handleOperator norm name value expressions path query
                    = Inl (InvalidQueryShape level)" by blast
            with Inr show ?thesis by simp
          next
            case False
            with op True Inr reached have "level \<in> set (buildLevels norm query rest b path)"
              by simp
            with 3(2)[OF op True Inr] mixed
            have "build_loop norm query rest b path = Inl (InvalidQueryShape level)" by blast
            with op True Inr show ?thesis by simp
          qed
        qed
      qed
    next
      case False
      note attr = this
      let ?sp = "if path \<noteq> [] then path @ ''.'' @ name else name"
      show ?thesis
      proof (cases "handleValue norm value expressions ?sp query")
        case (Inl e)
        with attr reached
        have "level \<in> set (valueLevels norm value expressions ?sp query)" by simp
        with 3(3)[OF attr] mixed
        have "handleValue norm value expressions ?sp query = Inl (InvalidQueryShape level)"
          by blast
        with attr show ?thesis by simp
      next
        case (Inr b)
        show ?thesis
        proof (cases "level \<in> set (valueLevels norm value expressions ?sp query)")
          case True
          with 3(3)[OF attr] mixed
          have "handleValue norm value expressions ?sp query = Inl (InvalidQueryShape level)"
            by blast
          with Inr show ?thesis by simp
        next
          case False
          with attr Inr reached have "level \<in> set (buildLevels norm query rest b path)"
            by simp
          with 3(4)[OF attr Inr] mixed
          have "build_loop norm query rest b path = Inl (InvalidQueryShape level)" by blast
          with attr Inr show ?thesis by simp
        qed
      qed
    qed
  qed
next
  case (4 norm object expressions subpath query)
  show ?case
  proof (intro ballI impI)
    fix level
    assume reached: "level \<in> set (valueLevels norm (Obj object) expressions subpath query)"
      and mixed: "mixedKeys level"
    obtain a b where sk: "scanKeys (Object_keys object) (False, False) = (a, b)"
      by (cases "scanKeys (Object_keys object) (False, False)")
    then have a: "a = (\<exists>name \<in> set (Object_keys object). \<not> looksLikeOperator name)"
      and b: "b = (\<exists>name \<in> set (Object_keys object). looksLikeOperator name)"
      by (simp_all add: scanKeys_flags)
    show "handleValue norm (Obj object) expressions subpath query
            = Inl (InvalidQueryShape level)"
    proof (cases "mixedKeys object")
      case True
      with reached have "level = object"
        by (simp add: valueLevels_object del: valueLevels.simps)
      with True show ?thesis by (simp add: handleValue_mixed del: handleValue.simps)
    next
      case False
      note unmixed = this
      with mixed have differs: "level \<noteq> object" by blast
      show ?thesis
      proof (cases a)
        case True
        with unmixed a b have nb: "\<not> b" unfolding mixedKeys_def by blast
        from reached differs unmixed True a
        have "level \<in> set (buildLevels norm object object expressions subpath)"
          by (simp add: valueLevels_object del: valueLevels.simps)
        with 4(1)[OF sk[symmetric] True nb] mixed
        have "build norm object expressions subpath = Inl (InvalidQueryShape level)" by blast
        with unmixed True a show ?thesis
          by (simp add: handleValue_object build.simps Object_entries_def
                del: handleValue.simps)
      next
        case False
        note na = this
        show ?thesis
        proof (cases b)
          case True
          from reached differs unmixed na a
          have "level \<in> set (operatorsLevels norm (Object_entries object) expressions subpath
                               query)"
            by (simp add: valueLevels_object Object_entries_def del: valueLevels.simps)
          with 4(2)[OF sk[symmetric] na True] mixed
          have "operators_loop norm (Object_entries object) expressions subpath query
                  = Inl (InvalidQueryShape level)" by blast
          with unmixed na a show ?thesis
            by (simp add: handleValue_object Object_entries_def del: handleValue.simps)
        next
          case False
          with na a b have "object = []"
            by (cases object) (auto simp: Object_keys_def)
          with reached differs show ?thesis
            by (simp add: Object_keys_def)
        qed
      qed
    qed
  qed
next
  case (7 norm operator "value" rest expressions subpath query)
  show ?case
  proof (intro ballI impI)
    fix level
    assume reached: "level \<in> set (operatorsLevels norm ((operator, value) # rest) expressions
                                    subpath query)"
      and mixed: "mixedKeys level"
    show "operators_loop norm ((operator, value) # rest) expressions subpath query
            = Inl (InvalidQueryShape level)"
    proof (cases "level \<in> set (operandLevels norm operator value expressions subpath query)")
      case True
      with 7(1) mixed
      have "handleOperator norm operator value expressions subpath query
              = Inl (InvalidQueryShape level)" by blast
      then show ?thesis by simp
    next
      case False
      show ?thesis
      proof (cases "handleOperator norm operator value expressions subpath query")
        case (Inl e)
        with False reached show ?thesis by simp
      next
        case (Inr b)
        with False reached have "level \<in> set (operatorsLevels norm rest b subpath query)"
          by simp
        with 7(2)[OF Inr] mixed
        have "operators_loop norm rest b subpath query = Inl (InvalidQueryShape level)"
          by blast
        with Inr show ?thesis by simp
      qed
    qed
  qed
next
  case (8 norm operator "value" expressions path query)
  show ?case
  proof (intro ballI impI)
    fix level
    assume reached: "level \<in> set (operandLevels norm operator value expressions path query)"
      and mixed: "mixedKeys level"
    show "handleOperator norm operator value expressions path query
            = Inl (InvalidQueryShape level)"
    proof (cases "norm operator value query")
      case (Inl e)
      with reached show ?thesis by (simp add: operandLevels.simps)
    next
      case (Inr nop)
      show ?thesis
      proof (cases "nop = ''$some'' \<or> nop = ''$every'' \<or> nop = ''$not''")
        case True
        with Inr reached have "level \<in> set (valueLevels norm value [] [] query)"
          by (simp add: operandLevels.simps)
        with 8(1)[OF Inr True] mixed
        have "handleValue norm value [] [] query = Inl (InvalidQueryShape level)" by blast
        with Inr True show ?thesis by (simp add: handleOperator.simps)
      next
        case False
        note nq = this
        show ?thesis
        proof (cases "nop = ''$and'' \<or> nop = ''$or'' \<or> nop = ''$nor''")
          case False
          with Inr nq reached show ?thesis by (simp add: operandLevels.simps)
        next
          case True
          show ?thesis
          proof (cases "value")
            case (Arr elements)
            with Inr nq True reached have "level \<in> set (elementsLevels norm elements query)"
              by (simp add: operandLevels.simps)
            with 8(2)[OF Inr nq True Arr] mixed
            have "values_map norm elements query = Inl (InvalidQueryShape level)" by blast
            with Inr nq True Arr show ?thesis by (simp add: handleOperator.simps)
          qed (use Inr nq True reached in \<open>simp_all add: operandLevels.simps\<close>)
        qed
      qed
    qed
  qed
next
  case (10 norm "value" rest query)
  show ?case
  proof (intro ballI impI)
    fix level
    assume reached: "level \<in> set (elementsLevels norm (value # rest) query)"
      and mixed: "mixedKeys level"
    show "values_map norm (value # rest) query = Inl (InvalidQueryShape level)"
    proof (cases "level \<in> set (valueLevels norm value [] [] query)")
      case True
      with 10(1) mixed
      have "handleValue norm value [] [] query = Inl (InvalidQueryShape level)" by blast
      then show ?thesis by simp
    next
      case False
      show ?thesis
      proof (cases "handleValue norm value [] [] query")
        case (Inl e)
        with False reached show ?thesis by simp
      next
        case (Inr b)
        with False reached have "level \<in> set (elementsLevels norm rest query)" by simp
        with 10(2)[OF Inr] mixed
        have "values_map norm rest query = Inl (InvalidQueryShape level)" by blast
        with Inr show ?thesis by simp
      qed
    qed
  qed
qed (simp_all (no_asm))

lemma build_loop_attribute_fails:
  assumes "build_loop norm q before acc p = Inr emitted" and "\<not> looksLikeOperator name"
    and "handleValue norm v emitted (if p \<noteq> [] then p @ ''.'' @ name else name) q = Inl e"
  shows "build_loop norm q (before @ (name, v) # after) acc p = Inl e"
  using assms by (simp add: build_loop_append)

lemma build_loop_logical_fails:
  assumes "build_loop norm q before acc p = Inr emitted"
    and "name = ''$and'' \<or> name = ''$or'' \<or> name = ''$nor''"
    and "handleOperator norm name v emitted p q = Inl e"
  shows "build_loop norm q (before @ (name, v) # after) acc p = Inl e"
proof -
  from assms(2) have "looksLikeOperator name" by auto
  with assms show ?thesis by (simp add: build_loop_append)
qed

lemma operators_loop_operator_fails:
  assumes "operators_loop norm before acc p q = Inr emitted"
    and "handleOperator norm operator v emitted p q = Inl e"
  shows "operators_loop norm (before @ (operator, v) # after) acc p q = Inl e"
  using assms by (simp add: operators_loop_append)

lemma values_map_element_fails:
  assumes "values_map norm before q = Inr compiled"
    and "handleValue norm v [] [] q = Inl e"
  shows "values_map norm (before @ v # after) q = Inl e"
  using assms by (simp add: values_map_append)

lemma handleOperator_quantifier_fails:
  assumes "norm operator v q = Inr normalized"
    and "normalized = ''$some'' \<or> normalized = ''$every'' \<or> normalized = ''$not''"
    and "handleValue norm v [] [] q = Inl e"
  shows "handleOperator norm operator v acc p q = Inl e"
  using assms by (simp add: handleOperator.simps)

lemma handleOperator_logical_fails:
  assumes "norm operator (Arr elements) q = Inr normalized"
    and "normalized = ''$and'' \<or> normalized = ''$or'' \<or> normalized = ''$nor''"
    and "values_map norm elements q = Inl e"
  shows "handleOperator norm operator (Arr elements) acc p q = Inl e"
proof -
  from assms(2)
  have "\<not> (normalized = ''$some'' \<or> normalized = ''$every'' \<or> normalized = ''$not'')"
    by auto
  with assms show ?thesis by (simp add: handleOperator.simps)
qed

section \<open>Queries made of attributes only\<close>

lemma dotJoin_snoc:
  "dotJoin (chain @ [name]) = (if chain = [] then name else dotJoin chain @ ''.'' @ name)"
  by (induction chain rule: dotJoin.induct) simp_all

lemma dotJoin_empty:
  "\<forall>name \<in> set chain. name \<noteq> [] \<Longrightarrow> (dotJoin chain = []) = (chain = [])"
  by (induction chain rule: dotJoin.induct) simp_all

lemma subpath_is_dotJoin:
  assumes "\<forall>name \<in> set chain. name \<noteq> []"
  shows "(if dotJoin chain \<noteq> [] then dotJoin chain @ ''.'' @ name else name)
           = dotJoin (chain @ [name])"
  using dotJoin_empty[OF assms] by (simp add: dotJoin_snoc)

lemma attributesOnly_keys:
  "attributesOnly object \<Longrightarrow> \<forall>name \<in> set (Object_keys object). \<not> looksLikeOperator name"
  by (induction object rule: attributesOnly.induct) (simp_all add: Object_keys_def)

lemma attributesOnly_scanKeys:
  assumes "attributesOnly object"
  shows "scanKeys (Object_keys object) (False, False) = (object \<noteq> [], False)"
proof -
  have none: "\<forall>name \<in> set (Object_keys object). \<not> looksLikeOperator name"
    using attributesOnly_keys[OF assms] .
  then have "(\<exists>name \<in> set (Object_keys object). \<not> looksLikeOperator name) = (object \<noteq> [])"
    by (cases object) (auto simp: Object_keys_def)
  moreover from none have "\<not> (\<exists>name \<in> set (Object_keys object). looksLikeOperator name)"
    by blast
  ultimately show ?thesis
    by (simp add: scanKeys_flags)
qed

lemma build_loop_attributesOnly:
  "attributesOnly entries \<Longrightarrow> \<forall>name \<in> set chain. name \<noteq> [] \<Longrightarrow>
   build_loop norm ctx entries acc (dotJoin chain)
     = Inr (acc @ map leafExpression (leaves chain entries))"
proof (induction chain entries arbitrary: acc ctx rule: leaves.induct)
  case (1 chain)
  show ?case by simp
next
  case (2 chain name "value" rest)
  from "2.prems"(1) have nonempty: "name \<noteq> []" and attr: "\<not> looksLikeOperator name"
    and rest: "attributesOnly rest"
    by simp_all
  have chain': "\<forall>k \<in> set (chain @ [name]). k \<noteq> []"
    using "2.prems"(2) nonempty by simp
  let ?sp = "if dotJoin chain \<noteq> [] then dotJoin chain @ ''.'' @ name else name"
  have sp: "?sp = dotJoin (chain @ [name])"
    using subpath_is_dotJoin[OF "2.prems"(2)] .
  have hv: "handleValue norm value acc (dotJoin (chain @ [name])) ctx
      = Inr (acc @ map leafExpression
               (case value of Obj object \<Rightarrow> leaves (chain @ [name]) object
                | _ \<Rightarrow> [(chain @ [name], value)]))"
  proof (cases "value")
    case (Obj object)
    from "2.prems"(1) Obj have sub: "attributesOnly object" by simp
    show ?thesis
    proof (cases "object = []")
      case True
      with Obj show ?thesis by (simp add: Object_keys_def)
    next
      case False
      have "build_loop norm object object acc (dotJoin (chain @ [name]))
              = Inr (acc @ map leafExpression (leaves (chain @ [name]) object))"
        using "2.IH"(1)[OF Obj sub chain'] .
      with Obj False show ?thesis
        by (simp add: attributesOnly_scanKeys[OF sub] build.simps Object_entries_def)
    qed
  qed (simp_all add: leafExpression_def)
  have "build_loop norm ctx ((name, value) # rest) acc (dotJoin chain)
      = (case handleValue norm value acc ?sp ctx of
           Inl e \<Rightarrow> Inl e
         | Inr acc' \<Rightarrow> build_loop norm ctx rest acc' (dotJoin chain))"
    using attr by simp
  also have "\<dots> = build_loop norm ctx rest
      (acc @ map leafExpression
               (case value of Obj object \<Rightarrow> leaves (chain @ [name]) object
                | _ \<Rightarrow> [(chain @ [name], value)])) (dotJoin chain)"
    unfolding sp hv by simp
  also have "\<dots> = Inr ((acc @ map leafExpression
               (case value of Obj object \<Rightarrow> leaves (chain @ [name]) object
                | _ \<Rightarrow> [(chain @ [name], value)]))
             @ map leafExpression (leaves chain rest))"
    using "2.IH"(2)[OF rest "2.prems"(2)] .
  finally show ?case by simp
qed

text \<open>
  C1. For every query whose keys, at every nesting level, are attribute names (non-empty,
  no operator token), \<open>toDocumentExpressions\<close> succeeds and emits exactly one expression per
  leaf value, in the order of the keys: its path is the chain of attribute keys from the
  root joined with dots, its operator is \<^verbatim>\<open>$equal\<close>, its operand is the leaf. The store's
  own example is the witness: \<^verbatim>\<open>{a: 1, b: {c: 2}}\<close> compiles to
  \<^verbatim>\<open>[['a', '$equal', 1], ['b.c', '$equal', 2]]\<close>.
\<close>

theorem attribute_only_query_compiles_to_leaves:
  assumes "attributesOnly (deserialize rootQuery)"
  shows "toDocumentExpressions deserialize norm storable rootQuery
           = Inr (map leafExpression (leaves [] (deserialize rootQuery)))"
  using build_loop_attributesOnly[OF assms, of "[]" norm "deserialize rootQuery" "[]"]
  by (simp add: toDocumentExpressions_unfold)

theorem attribute_only_query_compiles_to_leaves_witness:
  "attributesOnly (id [(''a'', Num 1), (''b'', Obj [(''c'', Num 2)])])
   \<and> toDocumentExpressions id (normalizeOperatorForValue []) ()
         [(''a'', Num 1), (''b'', Obj [(''c'', Num 2)])]
       = Inr [(''a'', ''$equal'', Plain (Num 1)), (''b.c'', ''$equal'', Plain (Num 2))]"
proof -
  have h: "attributesOnly (id [(''a'', Num 1), (''b'', Obj [(''c'', Num 2)])])"
    by simp
  note compiled = attribute_only_query_compiles_to_leaves[where deserialize = id
         and rootQuery = "[(''a'', Num 1), (''b'', Obj [(''c'', Num 2)])]"
         and norm = "normalizeOperatorForValue []" and storable = "()", OF h]
  have ev: "map leafExpression (leaves [] (id [(''a'', Num 1), (''b'', Obj [(''c'', Num 2)])]))
       = [(''a'', ''$equal'', Plain (Num 1)), (''b.c'', ''$equal'', Plain (Num 2))]"
    by (simp add: leafExpression_def)
  show ?thesis
    by (rule conjI[OF h compiled[unfolded ev]])
qed

section \<open>The empty object\<close>

text \<open>
  C10. When the value at a path is the empty plain object, \<open>handleValue\<close> emits nothing for
  that path: the array of expressions comes back as it was, whatever the path, neither
  the attribute branch nor the operator branch being taken. So the query \<^verbatim>\<open>{a: {}}\<close>, and
  any query \<^verbatim>\<open>{name: {}}\<close> whose key is an attribute, compiles to the empty list, not to an
  error and not to an expression.
\<close>

theorem empty_object_emits_nothing:
  "handleValue norm (Obj []) expressions subpath query = Inr expressions
   \<and> toDocumentExpressions id norm storable [(''a'', Obj [])] = Inr []
   \<and> toDocumentExpressions id norm storable [(CHR ''a'' # name, Obj [])] = Inr []"
  by (simp add: toDocumentExpressions_def toDocument_def build.simps Object_entries_def
        Object_keys_def)

section \<open>The default operator\<close>

text \<open>
  C2, as the code has it. A value given without an operator that is not a plain object, an
  array included, is compiled by \<open>handleValue\<close> to exactly one expression, whose operator is
  \<^verbatim>\<open>$equal\<close>: the source pushes \<^verbatim>\<open>[subpath, '$equal', value]\<close> under the comment "Make
  '$equal' the default operator for non object values" and does not consult the operator
  registry there. So no \<^verbatim>\<open>$in\<close> is inferred for an array.
\<close>

theorem default_operator_is_equal:
  assumes "\<not> isPlainObject value" and "\<not> looksLikeOperator name"
  shows "handleValue norm value expressions subpath query =
           Inr (expressions @ [(subpath, ''$equal'', Plain value)])
         \<and> toDocumentExpressions id norm storable [(name, value)] =
           Inr [(name, ''$equal'', Plain value)]"
  using assms
  by (simp add: handleValue_not_plain toDocumentExpressions_def toDocument_def build.simps
        Object_entries_def)

text \<open>The theorem at the string \<^verbatim>\<open>'x'\<close> under the attribute \<^verbatim>\<open>title\<close>.\<close>

theorem default_operator_is_equal_witness:
  "\<not> isPlainObject (Str ''x'') \<and> \<not> looksLikeOperator ''title''
   \<and> handleValue (normalizeOperatorForValue []) (Str ''x'') [] ''title'' [(''title'', Str ''x'')]
       = Inr [(''title'', ''$equal'', Plain (Str ''x''))]
   \<and> toDocumentExpressions id (normalizeOperatorForValue []) () [(''title'', Str ''x'')]
       = Inr [(''title'', ''$equal'', Plain (Str ''x''))]"
proof -
  have h1: "\<not> isPlainObject (Str ''x'')" by simp
  have h2: "\<not> looksLikeOperator ''title''" by simp
  show ?thesis
    using h1 h2
      default_operator_is_equal[OF h1 h2, of "normalizeOperatorForValue []" "[]" "''title''"
        "[(''title'', Str ''x'')]" "()"]
    by simp
qed

text \<open>
  The claim as stated fails at \<^verbatim>\<open>{a: [1, 2]}\<close>: the array is compiled with \<^verbatim>\<open>$equal\<close>, not
  with \<^verbatim>\<open>$in\<close>.
\<close>

theorem array_value_counterexample:
  "toDocumentExpressions id (normalizeOperatorForValue []) () [(''a'', Arr [Num 1, Num 2])]
     = Inr [(''a'', ''$equal'', Plain (Arr [Num 1, Num 2]))]
   \<and> toDocumentExpressions id (normalizeOperatorForValue []) () [(''a'', Arr [Num 1, Num 2])]
     \<noteq> Inr [(''a'', ''$in'', Plain (Arr [Num 1, Num 2]))]"
  by (simp add: toDocumentExpressions_def toDocument_def build.simps Object_entries_def)

section \<open>Attributes and operators at one level\<close>

text \<open>
  C3, as the code has it. The check is made by \<open>handleValue\<close>, that is at every level below
  the root, at any depth: the value of an attribute, an element of the array of \<^verbatim>\<open>$and\<close>,
  \<^verbatim>\<open>$or\<close>, \<^verbatim>\<open>$nor\<close>, the operand of \<^verbatim>\<open>$some\<close>, \<^verbatim>\<open>$every\<close>, \<^verbatim>\<open>$not\<close>. A plain object there
  whose keys hold both an attribute name and an operator token makes \<open>handleValue\<close> fail with
  \<open>InvalidQueryShape\<close>, citing that object; so \<open>handleValue\<close> succeeds on an object only when
  its keys are all attribute names or all operator tokens. For the whole compilation:
  \<^item> if \<open>toDocumentExpressions\<close> succeeds, no level it has reached is mixed;
  \<^item> every mixed level that the run reaches, at whatever depth and below whatever
    operators, makes \<open>toDocumentExpressions\<close> fail with \<open>InvalidQueryShape\<close> citing that level
    (the last conjunct);
  \<^item> an error goes up unchanged through each construct: from the value of an attribute
    or from a root \<^verbatim>\<open>$and\<close>, \<^verbatim>\<open>$or\<close>, \<^verbatim>\<open>$nor\<close> through the loop of \<open>build\<close> once the entries
    before have compiled, from the loop over the entries of an object to \<open>handleValue\<close>, from
    an operator through the loop over the operators, from the operand of \<^verbatim>\<open>$some\<close>,
    \<^verbatim>\<open>$every\<close>, \<^verbatim>\<open>$not\<close> and from an element of the array of \<^verbatim>\<open>$and\<close>, \<^verbatim>\<open>$or\<close>, \<^verbatim>\<open>$nor\<close>
    through \<open>handleOperator\<close>, and from the root loop to \<open>toDocumentExpressions\<close>;
  \<^item> in particular a mixed object that is the value of an attribute of the root query,
    the entries before it having compiled, makes the compilation fail with that error.

  The root level itself is not checked by \<open>build\<close>.
\<close>

theorem mixed_subquery_is_rejected:
  "(mixedKeys object \<longrightarrow>
      handleValue norm (Obj object) expressions subpath query = Inl (InvalidQueryShape object))
   \<and> (handleValue norm (Obj object) expressions subpath query = Inr result \<longrightarrow>
        (\<forall>name \<in> set (Object_keys object). \<not> looksLikeOperator name)
        \<or> (\<forall>name \<in> set (Object_keys object). looksLikeOperator name))
   \<and> (toDocumentExpressions deserialize norm storable rootQuery = Inr compiled \<longrightarrow>
        (\<forall>level \<in> set (buildLevels norm (deserialize rootQuery) (deserialize rootQuery) [] []).
            \<not> mixedKeys level))
   \<and> (build_loop norm query before expressions path = Inr emitted
        \<and> \<not> looksLikeOperator name
        \<and> handleValue norm value emitted (if path \<noteq> [] then path @ ''.'' @ name else name) query
            = Inl e \<longrightarrow>
        build_loop norm query (before @ (name, value) # after) expressions path = Inl e)
   \<and> (build_loop norm query before expressions path = Inr emitted
        \<and> (name = ''$and'' \<or> name = ''$or'' \<or> name = ''$nor'')
        \<and> handleOperator norm name value emitted path query = Inl e \<longrightarrow>
        build_loop norm query (before @ (name, value) # after) expressions path = Inl e)
   \<and> (\<not> mixedKeys object
        \<and> (\<exists>name \<in> set (Object_keys object). \<not> looksLikeOperator name)
        \<and> build_loop norm object object expressions subpath = Inl e \<longrightarrow>
        handleValue norm (Obj object) expressions subpath query = Inl e)
   \<and> (\<not> (\<exists>name \<in> set (Object_keys object). \<not> looksLikeOperator name)
        \<and> operators_loop norm object expressions subpath query = Inl e \<longrightarrow>
        handleValue norm (Obj object) expressions subpath query = Inl e)
   \<and> (operators_loop norm before expressions path query = Inr emitted
        \<and> handleOperator norm operator value emitted path query = Inl e \<longrightarrow>
        operators_loop norm (before @ (operator, value) # after) expressions path query = Inl e)
   \<and> (norm operator value query = Inr normalized
        \<and> (normalized = ''$some'' \<or> normalized = ''$every'' \<or> normalized = ''$not'')
        \<and> handleValue norm value [] [] query = Inl e \<longrightarrow>
        handleOperator norm operator value expressions path query = Inl e)
   \<and> (norm operator (Arr elements) query = Inr normalized
        \<and> (normalized = ''$and'' \<or> normalized = ''$or'' \<or> normalized = ''$nor'')
        \<and> values_map norm elements query = Inl e \<longrightarrow>
        handleOperator norm operator (Arr elements) expressions path query = Inl e)
   \<and> (values_map norm elementsBefore query = Inr compiledBefore
        \<and> handleValue norm value [] [] query = Inl e \<longrightarrow>
        values_map norm (elementsBefore @ value # elementsAfter) query = Inl e)
   \<and> (build_loop norm (deserialize rootQuery) (deserialize rootQuery) [] [] = Inl e \<longrightarrow>
        toDocumentExpressions deserialize norm storable rootQuery = Inl e)
   \<and> (deserialize rootQuery = before @ (name, Obj object) # after
        \<and> build_loop norm (deserialize rootQuery) before [] [] = Inr emitted
        \<and> \<not> looksLikeOperator name \<and> mixedKeys object \<longrightarrow>
        toDocumentExpressions deserialize norm storable rootQuery
          = Inl (InvalidQueryShape object))
   \<and> (\<forall>level \<in> set (buildLevels norm (deserialize rootQuery) (deserialize rootQuery) [] []).
          mixedKeys level \<longrightarrow>
          toDocumentExpressions deserialize norm storable rootQuery
            = Inl (InvalidQueryShape level))"
proof (intro conjI impI ballI)
  assume "mixedKeys object"
  then show "handleValue norm (Obj object) expressions subpath query
               = Inl (InvalidQueryShape object)"
    by (rule handleValue_mixed)
next
  assume ok: "handleValue norm (Obj object) expressions subpath query = Inr result"
  have "\<not> mixedKeys object"
  proof
    assume "mixedKeys object"
    from handleValue_mixed[OF this, of norm expressions subpath query] ok
    show False by simp
  qed
  then show "(\<forall>name \<in> set (Object_keys object). \<not> looksLikeOperator name)
        \<or> (\<forall>name \<in> set (Object_keys object). looksLikeOperator name)"
    unfolding mixedKeys_def by blast
next
  fix level
  assume "toDocumentExpressions deserialize norm storable rootQuery = Inr compiled"
    and "level \<in> set (buildLevels norm (deserialize rootQuery) (deserialize rootQuery) [] [])"
  then have "build_loop norm (deserialize rootQuery) (deserialize rootQuery) [] [] = Inr compiled"
    and "level \<in> set (buildLevels norm (deserialize rootQuery) (deserialize rootQuery) [] [])"
    by (simp_all add: toDocumentExpressions_unfold)
  with reached_mixed_level_fails(2)[of norm "deserialize rootQuery" "deserialize rootQuery"
         "[]" "[]"]
  show "\<not> mixedKeys level"
    by auto
next
  assume "build_loop norm query before expressions path = Inr emitted
        \<and> \<not> looksLikeOperator name
        \<and> handleValue norm value emitted (if path \<noteq> [] then path @ ''.'' @ name else name) query
            = Inl e"
  then show "build_loop norm query (before @ (name, value) # after) expressions path = Inl e"
    using build_loop_attribute_fails by blast
next
  assume "build_loop norm query before expressions path = Inr emitted
        \<and> (name = ''$and'' \<or> name = ''$or'' \<or> name = ''$nor'')
        \<and> handleOperator norm name value emitted path query = Inl e"
  then show "build_loop norm query (before @ (name, value) # after) expressions path = Inl e"
    using build_loop_logical_fails by blast
next
  assume "\<not> mixedKeys object
        \<and> (\<exists>name \<in> set (Object_keys object). \<not> looksLikeOperator name)
        \<and> build_loop norm object object expressions subpath = Inl e"
  then show "handleValue norm (Obj object) expressions subpath query = Inl e"
    by (simp add: handleValue_object del: handleValue.simps)
next
  assume a: "\<not> (\<exists>name \<in> set (Object_keys object). \<not> looksLikeOperator name)
        \<and> operators_loop norm object expressions subpath query = Inl e"
  then have "\<not> mixedKeys object" unfolding mixedKeys_def by blast
  with a show "handleValue norm (Obj object) expressions subpath query = Inl e"
    by (simp add: handleValue_object del: handleValue.simps)
next
  assume "operators_loop norm before expressions path query = Inr emitted
        \<and> handleOperator norm operator value emitted path query = Inl e"
  then show "operators_loop norm (before @ (operator, value) # after) expressions path query
               = Inl e"
    using operators_loop_operator_fails by blast
next
  assume "norm operator value query = Inr normalized
        \<and> (normalized = ''$some'' \<or> normalized = ''$every'' \<or> normalized = ''$not'')
        \<and> handleValue norm value [] [] query = Inl e"
  then show "handleOperator norm operator value expressions path query = Inl e"
    using handleOperator_quantifier_fails by blast
next
  assume "norm operator (Arr elements) query = Inr normalized
        \<and> (normalized = ''$and'' \<or> normalized = ''$or'' \<or> normalized = ''$nor'')
        \<and> values_map norm elements query = Inl e"
  then show "handleOperator norm operator (Arr elements) expressions path query = Inl e"
    using handleOperator_logical_fails by blast
next
  assume "values_map norm elementsBefore query = Inr compiledBefore
        \<and> handleValue norm value [] [] query = Inl e"
  then show "values_map norm (elementsBefore @ value # elementsAfter) query = Inl e"
    using values_map_element_fails by blast
next
  assume "build_loop norm (deserialize rootQuery) (deserialize rootQuery) [] [] = Inl e"
  then show "toDocumentExpressions deserialize norm storable rootQuery = Inl e"
    by (simp add: toDocumentExpressions_unfold)
next
  assume a: "deserialize rootQuery = before @ (name, Obj object) # after
        \<and> build_loop norm (deserialize rootQuery) before [] [] = Inr emitted
        \<and> \<not> looksLikeOperator name \<and> mixedKeys object"
  define dq where "dq = deserialize rootQuery"
  have mixed: "mixedKeys object" and attr: "\<not> looksLikeOperator name"
    and pre: "build_loop norm dq before [] [] = Inr emitted"
    and split: "dq = before @ (name, Obj object) # after"
    using a unfolding dq_def by blast+
  have "build_loop norm dq dq [] [] = build_loop norm dq (before @ (name, Obj object) # after) [] []"
    using split by simp
  also have "\<dots> = build_loop norm dq ((name, Obj object) # after) emitted []"
    by (simp add: build_loop_append pre)
  also have "\<dots> = Inl (InvalidQueryShape object)"
    using attr handleValue_mixed[OF mixed] by simp
  finally show "toDocumentExpressions deserialize norm storable rootQuery
          = Inl (InvalidQueryShape object)"
    by (simp add: toDocumentExpressions_unfold dq_def)
next
  fix level
  assume "level \<in> set (buildLevels norm (deserialize rootQuery) (deserialize rootQuery) [] [])"
    and "mixedKeys level"
  with reached_mixed_level_fails(2)
  have "build_loop norm (deserialize rootQuery) (deserialize rootQuery) [] []
          = Inl (InvalidQueryShape level)" by blast
  then show "toDocumentExpressions deserialize norm storable rootQuery
               = Inl (InvalidQueryShape level)"
    by (simp add: toDocumentExpressions_unfold)
qed

text \<open>
  The theorem at the mixed object \<^verbatim>\<open>{b: 1, $c: 2}\<close>, met two attributes below the root in
  \<^verbatim>\<open>{t: 0, a: {k: {b: 1, $c: 2}}}\<close>, as the operand of \<^verbatim>\<open>$every\<close> in
  \<^verbatim>\<open>{a: {$every: {b: 1, $c: 2}}}\<close>, as the second element of the array of a root \<^verbatim>\<open>$nor\<close>, as
  the value of a root attribute, and below \<^verbatim>\<open>$not\<close>, an attribute and \<^verbatim>\<open>$or\<close> in
  \<^verbatim>\<open>{a: {$not: {c: {$or: [{d: 1}, {b: 1, $c: 2}]}}}}\<close>: each compilation fails with
  \<open>InvalidQueryShape\<close> citing the object. \<^verbatim>\<open>{a: {$not: {b: 1}}}\<close> compiles, and its two levels are
  not mixed.
\<close>

theorem mixed_subquery_is_rejected_witness:
  "toDocumentExpressions id (normalizeOperatorForValue []) ()
       [(''t'', Num 0), (''a'', Obj [(''k'', Obj [(''b'', Num 1), (''$c'', Num 2)])])]
     = Inl (InvalidQueryShape [(''b'', Num 1), (''$c'', Num 2)])
   \<and> toDocumentExpressions id (normalizeOperatorForValue []) ()
       [(''a'', Obj [(''$every'', Obj [(''b'', Num 1), (''$c'', Num 2)])])]
     = Inl (InvalidQueryShape [(''b'', Num 1), (''$c'', Num 2)])
   \<and> toDocumentExpressions id (normalizeOperatorForValue []) ()
       [(''$nor'', Arr [Obj [(''x'', Num 1)], Obj [(''b'', Num 1), (''$c'', Num 2)]])]
     = Inl (InvalidQueryShape [(''b'', Num 1), (''$c'', Num 2)])
   \<and> toDocumentExpressions id (normalizeOperatorForValue []) ()
       [(''a'', Obj [(''$not'', Obj [(''b'', Num 1)])])]
     = Inr [(''a'', ''$not'', Exprs [(''b'', ''$equal'', Plain (Num 1))])]
   \<and> \<not> mixedKeys [(''$not'', Obj [(''b'', Num 1)])]
   \<and> \<not> mixedKeys [(''b'', Num 1)]
   \<and> toDocumentExpressions id (normalizeOperatorForValue []) ()
       [(''t'', Num 0), (''a'', Obj [(''b'', Num 1), (''$c'', Num 2)])]
     = Inl (InvalidQueryShape [(''b'', Num 1), (''$c'', Num 2)])
   \<and> toDocumentExpressions id (normalizeOperatorForValue []) ()
       [(''a'', Obj [(''$not'', Obj [(''c'', Obj [(''$or'',
          Arr [Obj [(''d'', Num 1)], Obj [(''b'', Num 1), (''$c'', Num 2)]])])])])]
     = Inl (InvalidQueryShape [(''b'', Num 1), (''$c'', Num 2)])"
proof -
  let ?N = "normalizeOperatorForValue []"
  let ?m = "[(''b'', Num 1), (''$c'', Num 2)]"
  let ?pa = "if ([] :: string) \<noteq> [] then [] @ ''.'' @ ''a'' else ''a''"
  note T = mixed_subquery_is_rejected
  note A = T[THEN conjunct1]
  note A' = T[THEN conjunct2, THEN conjunct1]
  note B = T[THEN conjunct2, THEN conjunct2, THEN conjunct1]
  note P1 = T[THEN conjunct2, THEN conjunct2, THEN conjunct2, THEN conjunct1]
  note P2 = T[THEN conjunct2, THEN conjunct2, THEN conjunct2, THEN conjunct2, THEN conjunct1]
  note P3 = T[THEN conjunct2, THEN conjunct2, THEN conjunct2, THEN conjunct2, THEN conjunct2,
              THEN conjunct1]
  note P4 = T[THEN conjunct2, THEN conjunct2, THEN conjunct2, THEN conjunct2, THEN conjunct2,
              THEN conjunct2, THEN conjunct1]
  note P5 = T[THEN conjunct2, THEN conjunct2, THEN conjunct2, THEN conjunct2, THEN conjunct2,
              THEN conjunct2, THEN conjunct2, THEN conjunct1]
  note P6 = T[THEN conjunct2, THEN conjunct2, THEN conjunct2, THEN conjunct2, THEN conjunct2,
              THEN conjunct2, THEN conjunct2, THEN conjunct2, THEN conjunct1]
  note P7 = T[THEN conjunct2, THEN conjunct2, THEN conjunct2, THEN conjunct2, THEN conjunct2,
              THEN conjunct2, THEN conjunct2, THEN conjunct2, THEN conjunct2, THEN conjunct1]
  note P8 = T[THEN conjunct2, THEN conjunct2, THEN conjunct2, THEN conjunct2, THEN conjunct2,
              THEN conjunct2, THEN conjunct2, THEN conjunct2, THEN conjunct2, THEN conjunct2,
              THEN conjunct1]
  note P9 = T[THEN conjunct2, THEN conjunct2, THEN conjunct2, THEN conjunct2, THEN conjunct2,
              THEN conjunct2, THEN conjunct2, THEN conjunct2, THEN conjunct2, THEN conjunct2,
              THEN conjunct2, THEN conjunct1]
  note R = T[THEN conjunct2, THEN conjunct2, THEN conjunct2, THEN conjunct2, THEN conjunct2,
             THEN conjunct2, THEN conjunct2, THEN conjunct2, THEN conjunct2, THEN conjunct2,
             THEN conjunct2, THEN conjunct2, THEN conjunct1]
  have m: "mixedKeys ?m"
    by (simp add: mixedKeys_def Object_keys_def)
  note raised = mp[OF A m]

  txt \<open>A mixed level two attributes below the root.\<close>
  let ?ao = "[(''k'', Obj ?m)]"
  let ?root1 = "[(''t'', Num 0), (''a'', Obj ?ao)]"
  let ?e0 = "[(''t'', ''$equal'', Plain (Num 0))]"
  have k: "\<not> looksLikeOperator ''k''" and a: "\<not> looksLikeOperator ''a''" by simp_all
  have inner: "build_loop ?N ?ao ([] @ (''k'', Obj ?m) # []) ?e0 ?pa
                 = Inl (InvalidQueryShape ?m)"
    by (rule mp[OF P1 conjI[OF build_loop.simps(1) conjI[OF k raised]]])
  have aoShape: "\<not> mixedKeys ?ao \<and> (\<exists>name \<in> set (Object_keys ?ao). \<not> looksLikeOperator name)"
    by (simp add: mixedKeys_def Object_keys_def)
  have inner': "build_loop ?N ?ao ?ao ?e0 ?pa = Inl (InvalidQueryShape ?m)"
    using inner by (simp only: append_Nil)
  have sub1: "handleValue ?N (Obj ?ao) ?e0 ?pa ?root1 = Inl (InvalidQueryShape ?m)"
    by (rule mp[OF P3 conjI[OF conjunct1[OF aoShape] conjI[OF conjunct2[OF aoShape] inner']]])
  have pre1: "build_loop ?N ?root1 [(''t'', Num 0)] [] [] = Inr ?e0"
    by simp
  have top1: "build_loop ?N ?root1 ([(''t'', Num 0)] @ (''a'', Obj ?ao) # []) [] []
                = Inl (InvalidQueryShape ?m)"
    by (rule mp[OF P1 conjI[OF pre1 conjI[OF a sub1]]])
  have top1': "build_loop ?N (id ?root1) (id ?root1) [] [] = Inl (InvalidQueryShape ?m)"
    using top1 by (simp only: id_apply append_Cons append_Nil)
  have r1: "toDocumentExpressions id ?N () ?root1 = Inl (InvalidQueryShape ?m)"
    by (rule mp[OF P9]) (rule top1')

  txt \<open>A mixed operand of \<^verbatim>\<open>$every\<close>.\<close>
  let ?ops = "[(''$every'', Obj ?m)]"
  let ?root2 = "[(''a'', Obj ?ops)]"
  have every: "?N ''$every'' (Obj ?m) ?root2 = Inr ''$every''"
    by (simp add: normalizeOperatorForValue_def canonicalOperators_def)
  have quantifier: "''$every'' = ''$some'' \<or> ''$every'' = ''$every'' \<or> ''$every'' = ''$not''"
    by simp
  have operand: "handleOperator ?N ''$every'' (Obj ?m) [] ?pa ?root2 = Inl (InvalidQueryShape ?m)"
    by (rule mp[OF P6], intro conjI, rule every, rule quantifier, rule raised)
  have loop2: "operators_loop ?N ([] @ (''$every'', Obj ?m) # []) [] ?pa ?root2
                 = Inl (InvalidQueryShape ?m)"
    by (rule mp[OF P5 conjI[OF operators_loop.simps(1) operand]])
  have opsShape: "\<not> (\<exists>name \<in> set (Object_keys ?ops). \<not> looksLikeOperator name)"
    by (simp add: Object_keys_def)
  have loop2': "operators_loop ?N ?ops [] ?pa ?root2 = Inl (InvalidQueryShape ?m)"
    using loop2 by (simp only: append_Nil)
  have sub2: "handleValue ?N (Obj ?ops) [] ?pa ?root2 = Inl (InvalidQueryShape ?m)"
    by (rule mp[OF P4 conjI[OF opsShape loop2']])
  have top2: "build_loop ?N ?root2 ([] @ (''a'', Obj ?ops) # []) [] []
                = Inl (InvalidQueryShape ?m)"
    by (rule mp[OF P1 conjI[OF build_loop.simps(1) conjI[OF a sub2]]])
  have top2': "build_loop ?N (id ?root2) (id ?root2) [] [] = Inl (InvalidQueryShape ?m)"
    using top2 by (simp only: id_apply append_Nil)
  have r2: "toDocumentExpressions id ?N () ?root2 = Inl (InvalidQueryShape ?m)"
    by (rule mp[OF P9]) (rule top2')

  txt \<open>A mixed element of the array of \<^verbatim>\<open>$nor\<close>.\<close>
  let ?first = "Obj [(''x'', Num 1)]"
  let ?root3 = "[(''$nor'', Arr [?first, Obj ?m])]"
  have nor: "?N ''$nor'' (Arr ([?first] @ Obj ?m # [])) ?root3 = Inr ''$nor''"
    by (simp add: normalizeOperatorForValue_def canonicalOperators_def)
  have logical: "''$nor'' = ''$and'' \<or> ''$nor'' = ''$or'' \<or> ''$nor'' = ''$nor''"
    by simp
  have before3: "values_map ?N [?first] ?root3 = Inr [[(''x'', ''$equal'', Plain (Num 1))]]"
    by (simp add: Object_keys_def build.simps Object_entries_def)
  have elements: "values_map ?N ([?first] @ Obj ?m # []) ?root3 = Inl (InvalidQueryShape ?m)"
    by (rule mp[OF P8 conjI[OF before3 raised]])
  have operand3: "handleOperator ?N ''$nor'' (Arr ([?first] @ Obj ?m # [])) [] [] ?root3
                    = Inl (InvalidQueryShape ?m)"
    by (rule mp[OF P7], intro conjI, rule nor, rule logical, rule elements)
  have top3: "build_loop ?N ?root3 ([] @ (''$nor'', Arr ([?first] @ Obj ?m # [])) # []) [] []
                = Inl (InvalidQueryShape ?m)"
    by (rule mp[OF P2 conjI[OF build_loop.simps(1) conjI[OF logical operand3]]])
  have top3': "build_loop ?N (id ?root3) (id ?root3) [] [] = Inl (InvalidQueryShape ?m)"
    using top3 by (simp only: id_apply append_Cons append_Nil)
  have r3: "toDocumentExpressions id ?N () ?root3 = Inl (InvalidQueryShape ?m)"
    by (rule mp[OF P9]) (rule top3')

  txt \<open>A query that compiles: the levels reached are not mixed.\<close>
  let ?root4 = "[(''a'', Obj [(''$not'', Obj [(''b'', Num 1)])])]"
  have compiled: "toDocumentExpressions id ?N () ?root4
                    = Inr [(''a'', ''$not'', Exprs [(''b'', ''$equal'', Plain (Num 1))])]"
    by (simp add: toDocumentExpressions_unfold Object_keys_def build.simps Object_entries_def
          handleOperator.simps normalizeOperatorForValue_def canonicalOperators_def)
  have levels: "buildLevels ?N (id ?root4) (id ?root4) [] []
                  = [[(''$not'', Obj [(''b'', Num 1)])], [(''b'', Num 1)]]"
    by (simp add: operandLevels.simps handleOperator.simps build.simps Object_keys_def
          Object_entries_def normalizeOperatorForValue_def canonicalOperators_def)
  note unmixed = mp[OF B compiled, unfolded levels]
  have u1: "\<not> mixedKeys [(''$not'', Obj [(''b'', Num 1)])]"
    and u2: "\<not> mixedKeys [(''b'', Num 1)]"
    using unmixed by simp_all

  txt \<open>A mixed value of an attribute of the root.\<close>
  let ?root5 = "[(''t'', Num 0), (''a'', Obj ?m)]"
  have pre5: "build_loop ?N (id ?root5) [(''t'', Num 0)] [] [] = Inr ?e0"
    by simp
  have split5: "id ?root5 = [(''t'', Num 0)] @ (''a'', Obj ?m) # []"
    by simp
  have r5: "toDocumentExpressions id ?N () ?root5 = Inl (InvalidQueryShape ?m)"
    by (rule mp[OF R], intro conjI, rule split5, rule pre5, rule a, rule m)

  txt \<open>A mixed level below \<^verbatim>\<open>$not\<close>, an attribute and \<^verbatim>\<open>$or\<close>.\<close>
  let ?root6 = "[(''a'', Obj [(''$not'', Obj [(''c'', Obj [(''$or'',
                   Arr [Obj [(''d'', Num 1)], Obj ?m])])])])]"
  note E = T[where deserialize = id and norm = "?N" and storable = "()" and rootQuery = ?root6,
             THEN conjunct2, THEN conjunct2, THEN conjunct2, THEN conjunct2, THEN conjunct2,
             THEN conjunct2, THEN conjunct2, THEN conjunct2, THEN conjunct2, THEN conjunct2,
             THEN conjunct2, THEN conjunct2, THEN conjunct2]
  have reached: "?m \<in> set (buildLevels ?N (id ?root6) (id ?root6) [] [])"
    by (simp add: operandLevels.simps handleOperator.simps build.simps Object_keys_def
          Object_entries_def normalizeOperatorForValue_def canonicalOperators_def)
  have r6: "toDocumentExpressions id ?N () ?root6 = Inl (InvalidQueryShape ?m)"
    by (rule mp[OF bspec[OF E reached] m])
  show ?thesis
    by (intro conjI r1 r2 r3 compiled u1 u2 r5 r6)
qed

text \<open>
  The claim as stated fails at the root: \<^verbatim>\<open>{a: 1, $and: []}\<close> mixes an attribute and an
  operator and compiles, and \<^verbatim>\<open>{a: 1, $in: []}\<close> mixes them and fails with
  \<open>UnsupportedRootOperator\<close>, not with \<open>InvalidQueryShape\<close>.
\<close>

theorem root_level_mix_counterexample:
  "mixedKeys [(''a'', Num 1), (''$and'', Arr [])]
   \<and> toDocumentExpressions id (normalizeOperatorForValue []) () [(''a'', Num 1), (''$and'', Arr [])]
       = Inr [(''a'', ''$equal'', Plain (Num 1)), ([], ''$and'', ExprLists [])]
   \<and> mixedKeys [(''a'', Num 1), (''$in'', Arr [])]
   \<and> toDocumentExpressions id (normalizeOperatorForValue []) () [(''a'', Num 1), (''$in'', Arr [])]
       = Inl (UnsupportedRootOperator ''$in'' [(''a'', Num 1), (''$in'', Arr [])])"
  by (simp add: mixedKeys_def Object_keys_def toDocumentExpressions_def toDocument_def build.simps
        Object_entries_def handleOperator.simps normalizeOperatorForValue_def
        canonicalOperators_def)

section \<open>Operators at the root\<close>




section \<open>The logical operators\<close>

text \<open>
  C4. The root-level query \<^verbatim>\<open>{$and: [{a: 1}, {b: 2}]}\<close> compiles to exactly
  \<^verbatim>\<open>[["", "$and", [[["a","$equal",1]], [["b","$equal",2]]]]]\<close>. In general, when the
  operator of an array value normalizes to \<^verbatim>\<open>$and\<close>, \<^verbatim>\<open>$or\<close> or \<^verbatim>\<open>$nor\<close>, \<open>handleOperator\<close>
  succeeds exactly when every element of the array compiles as a query of its own, with a
  fresh array of expressions and the empty path, and it then appends one expression whose
  operand is the list of those results, element by element in the order of the array.
\<close>

theorem logical_operator_compiles_each_element:
  "toDocumentExpressions id (normalizeOperatorForValue aliases) storable
       [(''$and'', Arr [Obj [(''a'', Num 1)], Obj [(''b'', Num 2)]])]
     = Inr [([], ''$and'', ExprLists [[(''a'', ''$equal'', Plain (Num 1))],
                                      [(''b'', ''$equal'', Plain (Num 2))]])]
   \<and> (norm operator (Arr values) query = Inr normalized
        \<and> (normalized = ''$and'' \<or> normalized = ''$or'' \<or> normalized = ''$nor'') \<longrightarrow>
        (handleOperator norm operator (Arr values) expressions path query = Inr result)
          = (\<exists>operatorExpressions.
               list_all2 (\<lambda>value subexpressions.
                            handleValue norm value [] [] query = Inr subexpressions) values operatorExpressions
               \<and> result = expressions @ [(path, normalized, ExprLists operatorExpressions)]))"
proof (intro conjI impI)
  show "toDocumentExpressions id (normalizeOperatorForValue aliases) storable
       [(''$and'', Arr [Obj [(''a'', Num 1)], Obj [(''b'', Num 2)]])]
     = Inr [([], ''$and'', ExprLists [[(''a'', ''$equal'', Plain (Num 1))],
                                      [(''b'', ''$equal'', Plain (Num 2))]])]"
    by (simp add: toDocumentExpressions_unfold handleOperator.simps normalizeOperatorForValue_def
          canonicalOperators_def Object_keys_def build.simps Object_entries_def)
next
  assume a: "norm operator (Arr values) query = Inr normalized
        \<and> (normalized = ''$and'' \<or> normalized = ''$or'' \<or> normalized = ''$nor'')"
  then have n: "norm operator (Arr values) query = Inr normalized"
    and l: "normalized = ''$and'' \<or> normalized = ''$or'' \<or> normalized = ''$nor''"
    by blast+
  from l have ns: "\<not> (normalized = ''$some'' \<or> normalized = ''$every'' \<or> normalized = ''$not'')"
    by auto
  have unf: "handleOperator norm operator (Arr values) expressions path query
      = (case values_map norm values query of
           Inl e \<Rightarrow> Inl e
         | Inr operatorExpressions \<Rightarrow> Inr (expressions @ [(path, normalized, ExprLists operatorExpressions)]))"
    using n l ns by (simp add: handleOperator.simps)
  show "(handleOperator norm operator (Arr values) expressions path query = Inr result)
          = (\<exists>operatorExpressions.
               list_all2 (\<lambda>value subexpressions.
                            handleValue norm value [] [] query = Inr subexpressions) values operatorExpressions
               \<and> result = expressions @ [(path, normalized, ExprLists operatorExpressions)])"
    unfolding unf values_map_list_all2[symmetric]
    by (cases "values_map norm values query") auto
qed

text \<open>The theorem at \<^verbatim>\<open>$or: [{a: 1}, 2]\<close> under the path \<^verbatim>\<open>p\<close>.\<close>

theorem logical_operator_compiles_each_element_witness:
  "normalizeOperatorForValue [] ''$or'' (Arr [Obj [(''a'', Num 1)], Num 2]) [] = Inr ''$or''
   \<and> handleOperator (normalizeOperatorForValue []) ''$or'' (Arr [Obj [(''a'', Num 1)], Num 2])
         [(''t'', ''$equal'', Plain (Num 0))] ''p'' []
       = Inr [(''t'', ''$equal'', Plain (Num 0)),
              (''p'', ''$or'', ExprLists [[(''a'', ''$equal'', Plain (Num 1))],
                                          [([], ''$equal'', Plain (Num 2))]])]"
proof -
  let ?norm = "normalizeOperatorForValue []"
  let ?elements = "[Obj [(''a'', Num 1)], Num 2]"
  let ?lists = "[[(''a'', ''$equal'', Plain (Num 1))], [([], ''$equal'', Plain (Num 2))]]"
  have h: "?norm ''$or'' (Arr ?elements) [] = Inr ''$or''
           \<and> (''$or'' = ''$and'' \<or> ''$or'' = ''$or'' \<or> ''$or'' = ''$nor'')"
    by (simp add: normalizeOperatorForValue_def canonicalOperators_def)
  have each: "list_all2 (\<lambda>value subexpressions.
                 handleValue ?norm value [] [] [] = Inr subexpressions) ?elements ?lists"
    by (simp add: Object_keys_def build.simps Object_entries_def)
  note inst = logical_operator_compiles_each_element[of "[]" "()" ?norm "''$or''" ?elements "[]"
         "''$or''" "[(''t'', ''$equal'', Plain (Num 0))]" "''p''"
         "[(''t'', ''$equal'', Plain (Num 0)), (''p'', ''$or'', ExprLists ?lists)]"]
  note eq = mp[OF conjunct2[OF inst] h]
  have "\<exists>operatorExpressions.
          list_all2 (\<lambda>value subexpressions.
                       handleValue ?norm value [] [] [] = Inr subexpressions)
            ?elements operatorExpressions
          \<and> [(''t'', ''$equal'', Plain (Num 0)), (''p'', ''$or'', ExprLists ?lists)]
              = [(''t'', ''$equal'', Plain (Num 0))]
                @ [(''p'', ''$or'', ExprLists operatorExpressions)]"
    by (rule exI[of _ ?lists]) (rule conjI[OF each], simp)
  then have compiled: "handleOperator ?norm ''$or'' (Arr ?elements)
         [(''t'', ''$equal'', Plain (Num 0))] ''p'' []
       = Inr [(''t'', ''$equal'', Plain (Num 0)), (''p'', ''$or'', ExprLists ?lists)]"
    by (rule iffD2[OF eq])
  show ?thesis
    by (rule conjI[OF conjunct1[OF h] compiled])
qed

section \<open>Order of emission\<close>















section \<open>Running an operation\<close>

lemma runOperation_outcome:
  "fst (u_runOperation operation params options func this) = fst (func (backendState this))"
proof -
  obtain r b where f: "func (backendState this) = (r, b)"
    by (cases "func (backendState this)")
  show ?thesis
    by (cases r; cases "u_trace this") (simp_all add: u_runOperation_def Let_def f)
qed

lemma runOperation_backendState:
  "backendState (snd (u_runOperation operation params options func this))
     = snd (func (backendState this))"
proof -
  obtain r b where f: "func (backendState this) = (r, b)"
    by (cases "func (backendState this)")
  show ?thesis
    by (cases r; cases "u_trace this") (simp_all add: u_runOperation_def Let_def f)
qed

lemma runOperation_trace:
  "u_trace (snd (u_runOperation operation params options func (this\<lparr>u_trace := Some entries\<rparr>)))
     = Some (entries @ [TraceEntry operation params options (fst (func (backendState this)))])"
proof -
  obtain r b where f: "func (backendState this) = (r, b)"
    by (cases "func (backendState this)")
  show ?thesis
    by (cases r) (simp_all add: u_runOperation_def Let_def f cloneDeep_def)
qed

lemma runOperation_not_tracing:
  "u_trace (snd (u_runOperation operation params options func (this\<lparr>u_trace := None\<rparr>))) = None"
proof -
  obtain r b where f: "func (backendState this) = (r, b)"
    by (cases "func (backendState this)")
  show ?thesis
    by (cases r) (simp_all add: u_runOperation_def Let_def f)
qed

lemma getStorable_ignores_trace:
  "u_getStorable (this\<lparr>u_trace := t\<rparr>) = u_getStorable this"
  by (simp add: fun_eq_iff u_getStorable_def)

lemma getStorableOfType_ignores_trace:
  "getStorableOfType env (this\<lparr>u_trace := t\<rparr>) type = getStorableOfType env this type"
  unfolding getStorableOfType_def u_getStorableOfType_def getStorable_ignores_trace
  by (rule refl)

section \<open>Components missing from the store\<close>

text \<open>
  C6. When \<^verbatim>\<open>throwIfMissing\<close> is not given (the default options among others), the type
  resolves to a registered storable, and the backend reports absence, \<^verbatim>\<open>load\<close>
  (\<^verbatim>\<open>readDocument\<close> returned \<^verbatim>\<open>undefined\<close>) and \<^verbatim>\<open>delete\<close> (\<^verbatim>\<open>deleteDocument\<close> returned
  \<^verbatim>\<open>false\<close>) fail with \<open>MissingFromStore\<close>, whose code is
  \<^verbatim>\<open>COMPONENT_IS_MISSING_FROM_STORE\<close>. When \<^verbatim>\<open>throwIfMissing\<close> is \<^verbatim>\<open>false\<close>, \<^verbatim>\<open>load\<close> against
  such a backend returns \<^verbatim>\<open>undefined\<close>.
\<close>

theorem missing_component_is_reported:
  "(getProperty (orEmpty optionsGiven) ''throwIfMissing'' = Undefined
    \<and> co_normalizeAttributeSelector env
          (withDefault (getProperty (orEmpty optionsGiven) ''attributeSelector'') (Bool True))
        = Inr selector
    \<and> getStorableOfType env this (getProperty params ''storableType'') = Inr storable
    \<and> readDocument backend (u_getCollectionNameFromStorable env storable)
          (toDocument (co_deserialize env) storable (getProperty params ''identifierDescriptor''))
          (co_buildProjection env (toDocument (co_deserialize env) storable selector))
          (backendState this) = (Inr Undefined, b) \<longrightarrow>
      fst (load env backend params optionsGiven this)
        = Inl (MissingFromStore ''load'' (getProperty params ''storableType'')
                 (getProperty params ''identifierDescriptor''))
      \<and> code (MissingFromStore ''load'' (getProperty params ''storableType'')
                 (getProperty params ''identifierDescriptor''))
          = Some ''COMPONENT_IS_MISSING_FROM_STORE'')
   \<and> (getProperty (orEmpty optionsGiven') ''throwIfMissing'' = Undefined
    \<and> getStorableOfType env this (getProperty params ''storableType'') = Inr storable
    \<and> deleteDocument backend (u_getCollectionNameFromStorable env storable)
          (toDocument (co_deserialize env) storable (getProperty params ''identifierDescriptor''))
          (backendState this) = (Inr False, b') \<longrightarrow>
      fst (delete env backend params optionsGiven' this)
        = Inl (MissingFromStore ''delete'' (getProperty params ''storableType'')
                 (getProperty params ''identifierDescriptor''))
      \<and> code (MissingFromStore ''delete'' (getProperty params ''storableType'')
                 (getProperty params ''identifierDescriptor''))
          = Some ''COMPONENT_IS_MISSING_FROM_STORE'')
   \<and> (getProperty options ''throwIfMissing'' = Bool False
    \<and> co_normalizeAttributeSelector env
          (withDefault (getProperty options ''attributeSelector'') (Bool True))
        = Inr selector'
    \<and> getStorableOfType env this (getProperty params ''storableType'') = Inr storable
    \<and> readDocument backend (u_getCollectionNameFromStorable env storable)
          (toDocument (co_deserialize env) storable (getProperty params ''identifierDescriptor''))
          (co_buildProjection env (toDocument (co_deserialize env) storable selector'))
          (backendState this) = (Inr Undefined, b'') \<longrightarrow>
      fst (load env backend params (Some options) this) = Inr Undefined)"
proof (intro conjI impI)
  assume a: "getProperty (orEmpty optionsGiven) ''throwIfMissing'' = Undefined
    \<and> co_normalizeAttributeSelector env
          (withDefault (getProperty (orEmpty optionsGiven) ''attributeSelector'') (Bool True))
        = Inr selector
    \<and> getStorableOfType env this (getProperty params ''storableType'') = Inr storable
    \<and> readDocument backend (u_getCollectionNameFromStorable env storable)
          (toDocument (co_deserialize env) storable (getProperty params ''identifierDescriptor''))
          (co_buildProjection env (toDocument (co_deserialize env) storable selector))
          (backendState this) = (Inr Undefined, b)"
  then show "fst (load env backend params optionsGiven this)
        = Inl (MissingFromStore ''load'' (getProperty params ''storableType'')
                 (getProperty params ''identifierDescriptor''))"
    by (simp add: load_def Let_def runOperation_outcome withDefault_def)
next
  assume a: "getProperty (orEmpty optionsGiven') ''throwIfMissing'' = Undefined
    \<and> getStorableOfType env this (getProperty params ''storableType'') = Inr storable
    \<and> deleteDocument backend (u_getCollectionNameFromStorable env storable)
          (toDocument (co_deserialize env) storable (getProperty params ''identifierDescriptor''))
          (backendState this) = (Inr False, b')"
  then show "fst (delete env backend params optionsGiven' this)
        = Inl (MissingFromStore ''delete'' (getProperty params ''storableType'')
                 (getProperty params ''identifierDescriptor''))"
    by (simp add: delete_def Let_def runOperation_outcome withDefault_def)
next
  assume a: "getProperty options ''throwIfMissing'' = Bool False
    \<and> co_normalizeAttributeSelector env
          (withDefault (getProperty options ''attributeSelector'') (Bool True))
        = Inr selector'
    \<and> getStorableOfType env this (getProperty params ''storableType'') = Inr storable
    \<and> readDocument backend (u_getCollectionNameFromStorable env storable)
          (toDocument (co_deserialize env) storable (getProperty params ''identifierDescriptor''))
          (co_buildProjection env (toDocument (co_deserialize env) storable selector'))
          (backendState this) = (Inr Undefined, b'')"
  then show "fst (load env backend params (Some options) this) = Inr Undefined"
    by (simp add: load_def Let_def runOperation_outcome withDefault_def orEmpty_def)
qed simp_all

text \<open>
  The theorem on the example store: loading and deleting the movie \<^verbatim>\<open>abc\<close> with no options,
  and loading it with \<^verbatim>\<open>{throwIfMissing: false}\<close>.
\<close>

theorem missing_component_is_reported_witness:
  "fst (load exampleCollaborators refusingBackend
          [(''storableType'', Str ''Movie''), (''identifierDescriptor'', Obj [(''id'', Str ''abc'')])]
          None exampleStore)
     = Inl (MissingFromStore ''load'' (Str ''Movie'') (Obj [(''id'', Str ''abc'')]))
   \<and> fst (delete exampleCollaborators refusingBackend
          [(''storableType'', Str ''Movie''), (''identifierDescriptor'', Obj [(''id'', Str ''abc'')])]
          None exampleStore)
     = Inl (MissingFromStore ''delete'' (Str ''Movie'') (Obj [(''id'', Str ''abc'')]))
   \<and> fst (load exampleCollaborators refusingBackend
          [(''storableType'', Str ''Movie''), (''identifierDescriptor'', Obj [(''id'', Str ''abc'')])]
          (Some [(''throwIfMissing'', Bool False)]) exampleStore)
     = Inr Undefined"
proof -
  let ?params = "[(''storableType'', Str ''Movie''),
                  (''identifierDescriptor'', Obj [(''id'', Str ''abc'')])]"
  let ?options = "[(''throwIfMissing'', Bool False)]"
  have storable: "getStorableOfType exampleCollaborators exampleStore
                    (getProperty ?params ''storableType'') = Inr (ComponentPrototype ''Movie'')"
    by (simp add: getStorableOfType_def u_getStorableOfType_def u_getStorable_def
          exampleCollaborators_def exampleStore_def getProperty_def)
  have h1: "getProperty (orEmpty None) ''throwIfMissing'' = Undefined
    \<and> co_normalizeAttributeSelector exampleCollaborators
          (withDefault (getProperty (orEmpty None) ''attributeSelector'') (Bool True))
        = Inr (Bool True)
    \<and> getStorableOfType exampleCollaborators exampleStore (getProperty ?params ''storableType'')
        = Inr (ComponentPrototype ''Movie'')
    \<and> readDocument refusingBackend
          (u_getCollectionNameFromStorable exampleCollaborators (ComponentPrototype ''Movie''))
          (toDocument (co_deserialize exampleCollaborators) (ComponentPrototype ''Movie'')
             (getProperty ?params ''identifierDescriptor''))
          (co_buildProjection exampleCollaborators
             (toDocument (co_deserialize exampleCollaborators) (ComponentPrototype ''Movie'')
                (Bool True)))
          (backendState exampleStore) = (Inr Undefined, [''readDocument''])"
    using storable
    by (simp add: orEmpty_def getProperty_def withDefault_def exampleCollaborators_def
          refusingBackend_def exampleStore_def)
  have h2: "getProperty (orEmpty None) ''throwIfMissing'' = Undefined
    \<and> getStorableOfType exampleCollaborators exampleStore (getProperty ?params ''storableType'')
        = Inr (ComponentPrototype ''Movie'')
    \<and> deleteDocument refusingBackend
          (u_getCollectionNameFromStorable exampleCollaborators (ComponentPrototype ''Movie''))
          (toDocument (co_deserialize exampleCollaborators) (ComponentPrototype ''Movie'')
             (getProperty ?params ''identifierDescriptor''))
          (backendState exampleStore) = (Inr False, [''deleteDocument''])"
    using storable
    by (simp add: orEmpty_def getProperty_def refusingBackend_def exampleStore_def)
  have h3: "getProperty ?options ''throwIfMissing'' = Bool False
    \<and> co_normalizeAttributeSelector exampleCollaborators
          (withDefault (getProperty ?options ''attributeSelector'') (Bool True))
        = Inr (Bool True)
    \<and> getStorableOfType exampleCollaborators exampleStore (getProperty ?params ''storableType'')
        = Inr (ComponentPrototype ''Movie'')
    \<and> readDocument refusingBackend
          (u_getCollectionNameFromStorable exampleCollaborators (ComponentPrototype ''Movie''))
          (toDocument (co_deserialize exampleCollaborators) (ComponentPrototype ''Movie'')
             (getProperty ?params ''identifierDescriptor''))
          (co_buildProjection exampleCollaborators
             (toDocument (co_deserialize exampleCollaborators) (ComponentPrototype ''Movie'')
                (Bool True)))
          (backendState exampleStore) = (Inr Undefined, [''readDocument''])"
    using storable
    by (simp add: getProperty_def withDefault_def exampleCollaborators_def
          refusingBackend_def exampleStore_def)
  note inst = missing_component_is_reported[where optionsGiven = None and optionsGiven' = None
      and env = exampleCollaborators and backend = refusingBackend and this = exampleStore
      and params = ?params and options = ?options and selector = "Bool True"
      and selector' = "Bool True" and storable = "ComponentPrototype ''Movie''"
      and b = "[''readDocument'']" and b' = "[''deleteDocument'']" and b'' = "[''readDocument'']"]
  have r1: "fst (load exampleCollaborators refusingBackend ?params None exampleStore)
     = Inl (MissingFromStore ''load'' (getProperty ?params ''storableType'')
              (getProperty ?params ''identifierDescriptor''))"
    using mp[OF conjunct1[OF inst] h1] by (rule conjunct1)
  have r2: "fst (delete exampleCollaborators refusingBackend ?params None exampleStore)
     = Inl (MissingFromStore ''delete'' (getProperty ?params ''storableType'')
              (getProperty ?params ''identifierDescriptor''))"
    using mp[OF conjunct1[OF conjunct2[OF inst]] h2] by (rule conjunct1)
  have r3: "fst (load exampleCollaborators refusingBackend ?params (Some ?options) exampleStore)
     = Inr Undefined"
    using mp[OF conjunct2[OF conjunct2[OF inst]] h3] .
  have p1: "getProperty ?params ''storableType'' = Str ''Movie''"
    and p2: "getProperty ?params ''identifierDescriptor'' = Obj [(''id'', Str ''abc'')]"
    by (simp_all add: getProperty_def)
  show ?thesis
    using r1 r2 r3 unfolding p1 p2 by (intro conjI)
qed

section \<open>Saving a new component that exists\<close>

text \<open>
  C7. When \<^verbatim>\<open>isNew\<close> is \<^verbatim>\<open>true\<close>, neither \<^verbatim>\<open>throwIfMissing\<close> nor \<^verbatim>\<open>throwIfExists\<close> is given,
  the type resolves, and \<^verbatim>\<open>createDocument\<close> returns \<^verbatim>\<open>false\<close> (the identifier is present),
  \<^verbatim>\<open>save\<close> fails with \<open>AlreadyExistsInStore\<close>, whose code is
  \<^verbatim>\<open>COMPONENT_ALREADY_EXISTS_IN_STORE\<close>, and the backend is left in the state in which
  \<^verbatim>\<open>createDocument\<close> left it: nothing is updated. When both options are given as \<^verbatim>\<open>true\<close>,
  \<^verbatim>\<open>save\<close> fails with \<open>OptionsConflict\<close> and the state of the backend is unchanged: no
  backend operation has been called.
\<close>

theorem save_new_existing_is_reported:
  "(getProperty params ''isNew'' = Bool True
    \<and> getProperty (orEmpty optionsGiven) ''throwIfMissing'' = Undefined
    \<and> getProperty (orEmpty optionsGiven) ''throwIfExists'' = Undefined
    \<and> getStorableOfType env this (getProperty params ''storableType'') = Inr storable
    \<and> createDocument backend (u_getCollectionNameFromStorable env storable)
          (toDocument (co_deserialize env) storable (getProperty params ''identifierDescriptor''))
          (co_deleteUndefinedProperties env
             (toDocument (co_deserialize env) storable (getProperty params ''serializedStorable'')))
          (backendState this) = (Inr False, b) \<longrightarrow>
      fst (save env backend params optionsGiven this)
        = Inl (AlreadyExistsInStore (getProperty params ''storableType'')
                 (getProperty params ''identifierDescriptor''))
      \<and> code (AlreadyExistsInStore (getProperty params ''storableType'')
                 (getProperty params ''identifierDescriptor''))
          = Some ''COMPONENT_ALREADY_EXISTS_IN_STORE''
      \<and> backendState (snd (save env backend params optionsGiven this)) = b)
   \<and> (getProperty options ''throwIfMissing'' = Bool True
    \<and> getProperty options ''throwIfExists'' = Bool True \<longrightarrow>
      fst (save env backend params' (Some options) this) = Inl OptionsConflict
      \<and> backendState (snd (save env backend params' (Some options) this)) = backendState this)"
proof (intro conjI impI)
  assume a: "getProperty params ''isNew'' = Bool True
    \<and> getProperty (orEmpty optionsGiven) ''throwIfMissing'' = Undefined
    \<and> getProperty (orEmpty optionsGiven) ''throwIfExists'' = Undefined
    \<and> getStorableOfType env this (getProperty params ''storableType'') = Inr storable
    \<and> createDocument backend (u_getCollectionNameFromStorable env storable)
          (toDocument (co_deserialize env) storable (getProperty params ''identifierDescriptor''))
          (co_deleteUndefinedProperties env
             (toDocument (co_deserialize env) storable (getProperty params ''serializedStorable'')))
          (backendState this) = (Inr False, b)"
  then show "fst (save env backend params optionsGiven this)
        = Inl (AlreadyExistsInStore (getProperty params ''storableType'')
                 (getProperty params ''identifierDescriptor''))"
    by (simp add: save_def Let_def runOperation_outcome withDefault_def)
  from a show "backendState (snd (save env backend params optionsGiven this)) = b"
    by (simp add: save_def Let_def runOperation_backendState withDefault_def)
next
  assume a: "getProperty options ''throwIfMissing'' = Bool True
    \<and> getProperty options ''throwIfExists'' = Bool True"
  then show "fst (save env backend params' (Some options) this) = Inl OptionsConflict"
    by (simp add: save_def Let_def runOperation_outcome withDefault_def orEmpty_def)
  from a show "backendState (snd (save env backend params' (Some options) this))
                 = backendState this"
    by (simp add: save_def Let_def runOperation_backendState withDefault_def orEmpty_def)
qed simp_all

text \<open>
  The theorem on the example store: the backend's log after the refused creation holds
  \<^verbatim>\<open>createDocument\<close> only, and is empty after the conflict of options.
\<close>

theorem save_new_existing_is_reported_witness:
  "fst (save exampleCollaborators refusingBackend
          [(''storableType'', Str ''Movie''), (''identifierDescriptor'', Obj [(''id'', Str ''abc'')]),
           (''serializedStorable'', Obj [(''title'', Str ''Inception'')]), (''isNew'', Bool True)]
          None exampleStore)
     = Inl (AlreadyExistsInStore (Str ''Movie'') (Obj [(''id'', Str ''abc'')]))
   \<and> backendState (snd (save exampleCollaborators refusingBackend
          [(''storableType'', Str ''Movie''), (''identifierDescriptor'', Obj [(''id'', Str ''abc'')]),
           (''serializedStorable'', Obj [(''title'', Str ''Inception'')]), (''isNew'', Bool True)]
          None exampleStore))
     = [''createDocument'']
   \<and> fst (save exampleCollaborators refusingBackend [(''storableType'', Str ''Movie'')]
          (Some [(''throwIfMissing'', Bool True), (''throwIfExists'', Bool True)]) exampleStore)
     = Inl OptionsConflict
   \<and> backendState (snd (save exampleCollaborators refusingBackend [(''storableType'', Str ''Movie'')]
          (Some [(''throwIfMissing'', Bool True), (''throwIfExists'', Bool True)]) exampleStore))
     = []"
proof -
  let ?params = "[(''storableType'', Str ''Movie''),
                  (''identifierDescriptor'', Obj [(''id'', Str ''abc'')]),
                  (''serializedStorable'', Obj [(''title'', Str ''Inception'')]),
                  (''isNew'', Bool True)]"
  let ?params' = "[(''storableType'', Str ''Movie'')]"
  let ?options = "[(''throwIfMissing'', Bool True), (''throwIfExists'', Bool True)]"
  have storable: "getStorableOfType exampleCollaborators exampleStore
                    (getProperty ?params ''storableType'') = Inr (ComponentPrototype ''Movie'')"
    by (simp add: getStorableOfType_def u_getStorableOfType_def u_getStorable_def
          exampleCollaborators_def exampleStore_def getProperty_def)
  have h1: "getProperty ?params ''isNew'' = Bool True
    \<and> getProperty (orEmpty None) ''throwIfMissing'' = Undefined
    \<and> getProperty (orEmpty None) ''throwIfExists'' = Undefined
    \<and> getStorableOfType exampleCollaborators exampleStore (getProperty ?params ''storableType'')
        = Inr (ComponentPrototype ''Movie'')
    \<and> createDocument refusingBackend
          (u_getCollectionNameFromStorable exampleCollaborators (ComponentPrototype ''Movie''))
          (toDocument (co_deserialize exampleCollaborators) (ComponentPrototype ''Movie'')
             (getProperty ?params ''identifierDescriptor''))
          (co_deleteUndefinedProperties exampleCollaborators
             (toDocument (co_deserialize exampleCollaborators) (ComponentPrototype ''Movie'')
                (getProperty ?params ''serializedStorable'')))
          (backendState exampleStore) = (Inr False, [''createDocument''])"
    using storable
    by (simp add: orEmpty_def getProperty_def refusingBackend_def exampleStore_def)
  have h2: "getProperty ?options ''throwIfMissing'' = Bool True
    \<and> getProperty ?options ''throwIfExists'' = Bool True"
    by (simp add: getProperty_def)
  note inst = save_new_existing_is_reported[where optionsGiven = None
      and env = exampleCollaborators and backend = refusingBackend and this = exampleStore
      and params = ?params and params' = ?params' and options = ?options
      and storable = "ComponentPrototype ''Movie''" and b = "[''createDocument'']"]
  note r1 = mp[OF conjunct1[OF inst] h1]
  note r2 = mp[OF conjunct2[OF inst] h2]
  have p1: "getProperty ?params ''storableType'' = Str ''Movie''"
    and p2: "getProperty ?params ''identifierDescriptor'' = Obj [(''id'', Str ''abc'')]"
    by (simp_all add: getProperty_def)
  have p3: "backendState exampleStore = []"
    by (simp add: exampleStore_def)
  show ?thesis
    using conjunct1[OF r1] conjunct2[OF conjunct2[OF r1]] conjunct1[OF r2] conjunct2[OF r2]
    unfolding p1 p2 p3 by (intro conjI)
qed

section \<open>The name under which \<^verbatim>\<open>count\<close> is traced\<close>

text \<open>
  C8. \<^verbatim>\<open>count\<close> calls \<^verbatim>\<open>_runOperation('find', ...)\<close>. With tracing active it appends exactly
  one entry, which holds the params, no options and the outcome of the call, and whose
  operation is \<^verbatim>\<open>find\<close>, not \<^verbatim>\<open>count\<close>: on the example store, and on every store.
\<close>

theorem count_is_traced_as_find:
  "count exampleCollaborators refusingBackend [(''storableType'', Str ''Movie'')]
       (startTrace exampleStore)
     = (Inr (Num 0),
        exampleStore\<lparr>backendState := [''countDocuments''],
                      u_trace := Some [TraceEntry ''find'' [(''storableType'', Str ''Movie'')] None
                                         (Inr (Num 0))]\<rparr>)
   \<and> u_trace (snd (count env backend params (this\<lparr>u_trace := Some entries\<rparr>)))
       = Some (entries @ [TraceEntry ''find'' params None
                            (fst (count env backend params (this\<lparr>u_trace := Some entries\<rparr>)))])"
proof (intro conjI)
  show "count exampleCollaborators refusingBackend [(''storableType'', Str ''Movie'')]
       (startTrace exampleStore)
     = (Inr (Num 0),
        exampleStore\<lparr>backendState := [''countDocuments''],
                      u_trace := Some [TraceEntry ''find'' [(''storableType'', Str ''Movie'')] None
                                         (Inr (Num 0))]\<rparr>)"
    by (simp add: count_def u_runOperation_def Let_def startTrace_def exampleStore_def
          getStorableOfType_def u_getStorableOfType_def u_getStorable_def
          exampleCollaborators_def getProperty_def queryParam_def withDefault_def
          u_getCollectionNameFromStorable_def toDocumentExpressionsOfValue_def
          toDocument_def build.simps Object_entries_def
          refusingBackend_def cloneDeep_def)
next
  show "u_trace (snd (count env backend params (this\<lparr>u_trace := Some entries\<rparr>)))
       = Some (entries @ [TraceEntry ''find'' params None
                            (fst (count env backend params (this\<lparr>u_trace := Some entries\<rparr>)))])"
  proof -
    have sel: "backendState (this\<lparr>u_trace := Some entries\<rparr>) = backendState this"
      by simp
    show ?thesis
      unfolding count_def runOperation_outcome runOperation_trace sel
      by (rule refl)
  qed
qed

end
